theory Spec2Isabelle
  imports Complex_Main
begin

section \<open>Data model\<close>

text \<open>
  The marketplace backend keeps four MongoDB collections (Product, Order, Review, User)
  and every route handler reads a document, checks guards and writes. The embedding
  makes the collections an explicit state that each handler takes and returns.
  Document ids (ObjectId) are natural numbers. The handlers' calls to the persistence
  layer are total here: a driver exception is modelled only where the handler's own
  data forces one (a duplicate \<open>_id\<close>, a schema validator, a read through a
  \<open>null\<close> reference).
\<close>

type_synonym uid = nat

text \<open>
  Product.status: the schema (models/Product.js) lists available, sold and pending; the
  admin route \<open>PUT /admin/products/:id/status\<close> also writes suspended.
\<close>

datatype product_status = Available | Pending | Sold | Suspended

record ratings =
  average :: rat
  count :: nat

text \<open>
  A JavaScript Number that holds \<open>totalRating / reviews.length\<close> is modelled by the
  exact quotient in \<^typ>\<open>rat\<close>.
\<close>

text \<open>
  A Product document. It carries the fields the handlers read or write, and the schema
  paths that a write without validators can leave invalid in the store (title,
  description, price and category, which \<open>updateProduct\<close> of
  controllers/productController.js sets through \<open>findByIdAndUpdate\<close> without
  \<open>runValidators\<close>). The paths condition, images and location are written through
  validating calls only and are left out.
\<close>

record product =
  p_title :: string
  p_description :: string
  p_price :: rat
  p_category :: string
  p_sellerId :: uid
  p_status :: product_status
  p_buyerId :: "uid option"
  p_ratings :: ratings

text \<open>Order.status and Order.paymentStatus, from orderSchema (models/Order.js).\<close>

datatype order_status =
  OPending | Confirmed | Shipped | Delivered | Completed | Cancelled | Disputed

datatype payment_status = PayPending | Escrowed | Released | Refunded

record address =
  street :: string
  city :: string
  state :: string
  zipCode :: string
  country :: string

record order =
  o_productId :: uid
  o_buyerId :: uid
  o_sellerId :: uid
  o_amount :: rat
  o_status :: order_status
  o_paymentStatus :: payment_status
  o_shippingAddress :: address
  o_trackingNumber :: "string option"
  o_notes :: "string option"

datatype review_type = ProductReview | SellerReview

record review =
  r_id :: uid
  r_productId :: uid
  r_userId :: uid
  r_sellerId :: uid
  r_rating :: int
  r_comment :: string
  r_reviewType :: review_type

datatype role = Buyer | Seller | Both | Admin

record user =
  u_role :: role
  u_ratings :: ratings

text \<open>
  The Review collection is a list, in insertion order, because the handlers enumerate it
  (\<open>Review.find\<close>, \<open>Review.findOne\<close>); the other collections are looked up by id only.
\<close>

record db =
  products :: "uid \<rightharpoonup> product"
  orders :: "uid \<rightharpoonup> order"
  reviews :: "review list"
  users :: "uid \<rightharpoonup> user"

text \<open>
  A failed request: \<open>Failure code message\<close> is \<open>res.status(code).json({ message })\<close>;
  \<open>ValidationErrors msgs\<close> is the status 400 answer that carries the array of
  express-validator messages.
\<close>

datatype failure = Failure nat string | ValidationErrors "string list"

text \<open>The authenticated user that the \<open>auth\<close> middleware stores in \<open>req.user\<close>.\<close>

record req_user =
  au_id :: uid
  au_role :: role

section \<open>Listing lifecycle (routes/products.js)\<close>

text \<open>\<open>Product.findByIdAndUpdate(id, { status })\<close>: a missing document is left missing.\<close>

definition set_product_status :: "uid \<Rightarrow> product_status \<Rightarrow> db \<Rightarrow> db" where
  "set_product_status pid st d =
     (case products d pid of
        None \<Rightarrow> d
      | Some p \<Rightarrow> d\<lparr>products := (products d)(pid \<mapsto> p\<lparr>p_status := st\<rparr>)\<rparr>)"

text \<open>
  \<open>product.save()\<close> runs the validators of productSchema on the document it is about
  to write: title required and at most 100 characters, description required and at most
  1000, price at least 0, category and status each one of the schema's enum values. A
  required string fails when it is empty. When a validator fails, \<open>save\<close> throws,
  nothing is written and the handler's \<open>catch\<close> answers 500.
\<close>

definition product_categories :: "string list" where
  "product_categories = [''Electronics'', ''Clothing'', ''Home & Garden'', ''Sports'',
     ''Books'', ''Automotive'', ''Health & Beauty'', ''Toys'', ''Other'']"

definition validate_product :: "product \<Rightarrow> bool" where
  "validate_product p =
     (p_title p \<noteq> [] \<and> length (p_title p) \<le> 100 \<and>
      p_description p \<noteq> [] \<and> length (p_description p) \<le> 1000 \<and>
      0 \<le> p_price p \<and>
      p_category p \<in> set product_categories \<and>
      p_status p \<in> set [Available, Sold, Pending])"

text \<open>\<open>POST /api/products/:id/purchase\<close>\<close>

definition purchase :: "db \<Rightarrow> uid \<Rightarrow> uid \<Rightarrow> failure + db" where
  "purchase d caller pid =
     (case products d pid of
        None \<Rightarrow> Inl (Failure 404 ''Product not found'')
      | Some p \<Rightarrow>
          if p_status p \<noteq> Available
          then Inl (Failure 400 ''Product is not available for purchase'')
          else if p_sellerId p = caller
          then Inl (Failure 400 ''You cannot purchase your own product'')
          else
            let product = p\<lparr>p_status := Pending, p_buyerId := Some caller\<rparr>
            in if \<not> validate_product product
               then Inl (Failure 500 ''Server error processing purchase'')
               else Inr (d\<lparr>products := (products d)(pid \<mapsto> product)\<rparr>))"

text \<open>\<open>POST /api/products/:id/confirm-purchase\<close>\<close>

definition confirm_purchase :: "db \<Rightarrow> uid \<Rightarrow> uid \<Rightarrow> failure + db" where
  "confirm_purchase d caller pid =
     (case products d pid of
        None \<Rightarrow> Inl (Failure 404 ''Product not found'')
      | Some p \<Rightarrow>
          if p_buyerId p = None \<or> p_buyerId p \<noteq> Some caller
          then Inl (Failure 403 ''Access denied. You are not the buyer.'')
          else if p_status p \<noteq> Pending
          then Inl (Failure 400 ''Product is not in pending status'')
          else
            let product = p\<lparr>p_status := Sold\<rparr>
            in if \<not> validate_product product
               then Inl (Failure 500 ''Server error confirming purchase'')
               else Inr (d\<lparr>products := (products d)(pid \<mapsto> product)\<rparr>))"

text \<open>\<open>POST /api/products/:id/cancel-purchase\<close>\<close>

definition cancel_purchase :: "db \<Rightarrow> uid \<Rightarrow> uid \<Rightarrow> failure + db" where
  "cancel_purchase d caller pid =
     (case products d pid of
        None \<Rightarrow> Inl (Failure 404 ''Product not found'')
      | Some p \<Rightarrow>
          let isBuyer = (p_buyerId p \<noteq> None \<and> p_buyerId p = Some caller);
              isSeller = (p_sellerId p = caller)
          in if \<not> isBuyer \<and> \<not> isSeller
             then Inl (Failure 403 ''Access denied.'')
             else if p_status p \<noteq> Pending
             then Inl (Failure 400 ''Product is not in pending status'')
             else
               let product = p\<lparr>p_status := Available, p_buyerId := None\<rparr>
               in if \<not> validate_product product
                  then Inl (Failure 500 ''Server error cancelling purchase'')
                  else Inr (d\<lparr>products := (products d)(pid \<mapsto> product)\<rparr>))"

text \<open>
  \<open>DELETE /api/products/:id\<close> behind the \<open>isSeller\<close> middleware, which lets the roles
  seller and both through.
\<close>

definition delete_product :: "db \<Rightarrow> req_user \<Rightarrow> uid \<Rightarrow> failure + db" where
  "delete_product d u pid =
     (if au_role u \<noteq> Seller \<and> au_role u \<noteq> Both
      then Inl (Failure 403 ''Access denied. Seller role required.'')
      else case products d pid of
        None \<Rightarrow> Inl (Failure 404 ''Product not found'')
      | Some p \<Rightarrow>
          if p_sellerId p \<noteq> au_id u
          then Inl (Failure 403 ''Access denied. You are not the owner.'')
          else if p_status p = Sold \<or> p_status p = Pending
          then Inl (Failure 400 ''Cannot delete a sold or pending product'')
          else Inr (d\<lparr>products := (products d)(pid := None)\<rparr>))"

text \<open>\<open>exports.deleteProduct\<close> of controllers/productController.js\<close>

definition deleteProduct :: "db \<Rightarrow> uid \<Rightarrow> uid \<Rightarrow> failure + db" where
  "deleteProduct d caller pid =
     (case products d pid of
        None \<Rightarrow> Inl (Failure 404 ''Product not found'')
      | Some p \<Rightarrow>
          if p_sellerId p \<noteq> caller
          then Inl (Failure 403 ''Access denied'')
          else Inr (d\<lparr>products := (products d)(pid := None)\<rparr>))"

section \<open>Order lifecycle (routes/orders.js)\<close>

text \<open>
  The body validators of \<open>POST /orders\<close>: one message for each empty address field, in
  the order of the chain. (\<open>productId\<close> is an id by its type here.)
\<close>

definition order_body_errors :: "address \<Rightarrow> string list" where
  "order_body_errors a =
     (if street a = [] then [''Street address is required''] else []) @
     (if city a = [] then [''City is required''] else []) @
     (if state a = [] then [''State is required''] else []) @
     (if zipCode a = [] then [''Zip code is required''] else [])"

text \<open>
  \<open>POST /orders\<close>. \<open>oid\<close> is the \<open>_id\<close> that \<open>new Order\<close> generates; \<open>order.save()\<close>
  throws on an \<open>_id\<close> already stored and on a negative amount (schema \<open>min: 0\<close>), and
  \<open>product.sellerId._id\<close> throws when \<open>populate\<close> found no seller document: the
  handler's \<open>catch\<close> answers 500 for each. The schema defaults give status pending.
\<close>

definition create_order ::
  "db \<Rightarrow> uid \<Rightarrow> uid \<Rightarrow> uid \<Rightarrow> address \<Rightarrow> string option \<Rightarrow> failure + db" where
  "create_order d caller oid pid addr notes =
     (if order_body_errors addr \<noteq> [] then Inl (ValidationErrors (order_body_errors addr))
      else case products d pid of
        None \<Rightarrow> Inl (Failure 404 ''Product not found'')
      | Some p \<Rightarrow>
          if p_status p \<noteq> Available
          then Inl (Failure 400 ''Product is not available'')
          else if users d (p_sellerId p) = None
          then Inl (Failure 500 ''Server error'')
          else if p_sellerId p = caller
          then Inl (Failure 400 ''Cannot purchase your own product'')
          else if p_price p < 0 \<or> orders d oid \<noteq> None
          then Inl (Failure 500 ''Server error'')
          else
            let order = \<lparr>o_productId = pid, o_buyerId = caller, o_sellerId = p_sellerId p,
                         o_amount = p_price p, o_status = OPending,
                         o_paymentStatus = Escrowed, o_shippingAddress = addr,
                         o_trackingNumber = None, o_notes = notes\<rparr>
            in Inr (set_product_status pid Pending (d\<lparr>orders := (orders d)(oid \<mapsto> order)\<rparr>)))"

text \<open>
  \<open>PUT /orders/:id/ship\<close>. The handler never reads \<open>validationResult\<close>, so the
  \<open>trackingNumber\<close> validator has no effect; an empty string is falsy and is not stored.
  Here and in the two handlers below \<open>order.save()\<close> validates the Order again; an
  Order is stored by \<open>POST /orders\<close> alone, which validated it, and the handlers set
  enum values of the schema, so that check passes and is left out.
\<close>

definition ship_order :: "db \<Rightarrow> uid \<Rightarrow> uid \<Rightarrow> string option \<Rightarrow> failure + db" where
  "ship_order d caller oid trackingNumber =
     (case orders d oid of
        None \<Rightarrow> Inl (Failure 404 ''Order not found'')
      | Some ord \<Rightarrow>
          if o_sellerId ord \<noteq> caller
          then Inl (Failure 403 ''Access denied'')
          else if o_status ord \<noteq> Confirmed
          then Inl (Failure 400 ''Order must be confirmed before shipping'')
          else
            let shipped = ord\<lparr>o_status := Shipped\<rparr>;
                tracked = (case trackingNumber of
                             Some t \<Rightarrow> if t \<noteq> [] then shipped\<lparr>o_trackingNumber := Some t\<rparr>
                                       else shipped
                           | None \<Rightarrow> shipped)
            in Inr (d\<lparr>orders := (orders d)(oid \<mapsto> tracked)\<rparr>))"

text \<open>\<open>PUT /orders/:id/confirm-delivery\<close>\<close>

definition confirm_delivery :: "db \<Rightarrow> uid \<Rightarrow> uid \<Rightarrow> failure + db" where
  "confirm_delivery d caller oid =
     (case orders d oid of
        None \<Rightarrow> Inl (Failure 404 ''Order not found'')
      | Some ord \<Rightarrow>
          if o_buyerId ord \<noteq> caller
          then Inl (Failure 403 ''Access denied'')
          else if o_status ord \<noteq> Shipped
          then Inl (Failure 400 ''Order must be shipped before delivery confirmation'')
          else Inr (set_product_status (o_productId ord) Sold
                 (d\<lparr>orders := (orders d)(oid \<mapsto>
                        ord\<lparr>o_status := Completed, o_paymentStatus := Released\<rparr>)\<rparr>)))"

text \<open>\<open>PUT /orders/:id/cancel\<close>\<close>

definition cancel_order :: "db \<Rightarrow> uid \<Rightarrow> uid \<Rightarrow> failure + db" where
  "cancel_order d caller oid =
     (case orders d oid of
        None \<Rightarrow> Inl (Failure 404 ''Order not found'')
      | Some ord \<Rightarrow>
          let canCancel = (o_buyerId ord = caller \<or> o_sellerId ord = caller)
          in if \<not> canCancel
             then Inl (Failure 403 ''Access denied'')
             else if o_status ord \<in> set [Completed, Cancelled]
             then Inl (Failure 400 ''Cannot cancel this order'')
             else Inr (set_product_status (o_productId ord) Available
                    (d\<lparr>orders := (orders d)(oid \<mapsto>
                           ord\<lparr>o_status := Cancelled, o_paymentStatus := Refunded\<rparr>)\<rparr>)))"

section \<open>Rating aggregator and reviews (routes/reviews.js)\<close>

text \<open>
  The body shared by \<open>updateProductRatings\<close> and \<open>updateSellerRatings\<close>: a
  \<open>reduce\<close> from 0 over the reviews found, and the guarded quotient.
\<close>

definition rating_summary :: "review list \<Rightarrow> ratings" where
  "rating_summary found =
     (let totalRating = foldl (\<lambda>sum review. sum + r_rating review) 0 found;
          averageRating = (if length found > 0
                           then of_int totalRating / of_nat (length found) else 0)
      in \<lparr>average = averageRating, count = length found\<rparr>)"

definition updateProductRatings :: "uid \<Rightarrow> db \<Rightarrow> db" where
  "updateProductRatings productId d =
     (let found = filter (\<lambda>r. r_productId r = productId) (reviews d)
      in case products d productId of
           None \<Rightarrow> d
         | Some p \<Rightarrow>
             d\<lparr>products := (products d)(productId \<mapsto> p\<lparr>p_ratings := rating_summary found\<rparr>)\<rparr>)"

definition updateSellerRatings :: "uid \<Rightarrow> db \<Rightarrow> db" where
  "updateSellerRatings sellerId d =
     (let found = filter (\<lambda>r. r_sellerId r = sellerId) (reviews d)
      in case users d sellerId of
           None \<Rightarrow> d
         | Some u \<Rightarrow>
             d\<lparr>users := (users d)(sellerId \<mapsto> u\<lparr>u_ratings := rating_summary found\<rparr>)\<rparr>)"

text \<open>\<open>Review.findById(id)\<close> and \<open>Review.findOne({ productId, userId })\<close>\<close>

definition findById_review :: "db \<Rightarrow> uid \<Rightarrow> review option" where
  "findById_review d rid = find (\<lambda>r. r_id r = rid) (reviews d)"

definition findOne_review :: "db \<Rightarrow> uid \<Rightarrow> uid \<Rightarrow> review option" where
  "findOne_review d productId userId =
     find (\<lambda>r. r_productId r = productId \<and> r_userId r = userId) (reviews d)"

text \<open>The validators of \<open>POST /api/reviews\<close> on rating and comment.\<close>

definition rating_errors :: "int \<Rightarrow> string list" where
  "rating_errors rating =
     (if 1 \<le> rating \<and> rating \<le> 5 then [] else [''Rating must be between 1 and 5''])"

definition review_body_errors :: "int \<Rightarrow> string \<Rightarrow> string list" where
  "review_body_errors rating comment =
     rating_errors rating @
     (if 1 \<le> length comment \<and> length comment \<le> 500 then []
      else [''Comment is required and must be less than 500 characters''])"

text \<open>\<open>new Review({ ... })\<close>, with the default \<open>reviewType = 'product'\<close> of the handler.\<close>

definition new_review ::
  "uid \<Rightarrow> uid \<Rightarrow> uid \<Rightarrow> uid \<Rightarrow> int \<Rightarrow> string \<Rightarrow> review_type option \<Rightarrow> review" where
  "new_review rid productId userId sellerId rating comment reviewType =
     \<lparr>r_id = rid, r_productId = productId, r_userId = userId, r_sellerId = sellerId,
      r_rating = rating, r_comment = comment,
      r_reviewType = (case reviewType of None \<Rightarrow> ProductReview | Some t \<Rightarrow> t)\<rparr>"

text \<open>
  \<open>POST /api/reviews\<close>. \<open>rid\<close> is the \<open>_id\<close> that \<open>new Review\<close> generates
  (\<open>review.save()\<close> throws on one already stored). The two recomputations of
  \<open>Promise.all\<close> write to different collections, so their order does not matter.
\<close>

definition create_review ::
  "db \<Rightarrow> uid \<Rightarrow> uid \<Rightarrow> uid \<Rightarrow> int \<Rightarrow> string \<Rightarrow> review_type option \<Rightarrow> failure + db" where
  "create_review d caller rid productId rating comment reviewType =
     (if review_body_errors rating comment \<noteq> []
      then Inl (ValidationErrors (review_body_errors rating comment))
      else case products d productId of
        None \<Rightarrow> Inl (Failure 404 ''Product not found'')
      | Some p \<Rightarrow>
          if p_buyerId p \<noteq> Some caller
          then Inl (Failure 403 ''You can only review products you have purchased'')
          else if p_status p \<noteq> Sold
          then Inl (Failure 400 ''You can only review completed purchases'')
          else if findOne_review d productId caller \<noteq> None
          then Inl (Failure 400 ''You have already reviewed this product'')
          else if findById_review d rid \<noteq> None
          then Inl (Failure 500 ''Server error creating review'')
          else
            let review = new_review rid productId caller (p_sellerId p) rating comment reviewType
            in Inr (updateSellerRatings (p_sellerId p)
                     (updateProductRatings productId (d\<lparr>reviews := reviews d @ [review]\<rparr>))))"

text \<open>\<open>Review.findByIdAndUpdate\<close>: the first document with the id is rewritten.\<close>

fun update_first :: "('a \<Rightarrow> bool) \<Rightarrow> ('a \<Rightarrow> 'a) \<Rightarrow> 'a list \<Rightarrow> 'a list" where
  "update_first P f [] = []"
| "update_first P f (x # xs) = (if P x then f x # xs else x # update_first P f xs)"

text \<open>\<open>Review.findByIdAndDelete\<close>: the first document with the id is removed.\<close>

fun delete_first :: "('a \<Rightarrow> bool) \<Rightarrow> 'a list \<Rightarrow> 'a list" where
  "delete_first P [] = []"
| "delete_first P (x # xs) = (if P x then xs else x # delete_first P xs)"

definition update_body_errors :: "int option \<Rightarrow> string option \<Rightarrow> string list" where
  "update_body_errors rating comment =
     (case rating of None \<Rightarrow> [] | Some r \<Rightarrow> rating_errors r) @
     (case comment of
        None \<Rightarrow> []
      | Some c \<Rightarrow> if 1 \<le> length c \<and> length c \<le> 500 then []
                  else [''Comment must be less than 500 characters''])"

text \<open>
  \<open>PUT /api/reviews/:id\<close>. A rating or comment that passed validation is truthy, so
  \<open>if (rating)\<close> and \<open>if (comment)\<close> hold exactly when the field was sent;
  \<open>updateData\<close> is the object the handler builds from them, applied to a document.
\<close>

definition updateData :: "int option \<Rightarrow> string option \<Rightarrow> review \<Rightarrow> review" where
  "updateData rating comment r =
     (let r1 = (case rating of None \<Rightarrow> r | Some v \<Rightarrow> r\<lparr>r_rating := v\<rparr>)
      in (case comment of None \<Rightarrow> r1 | Some c \<Rightarrow> r1\<lparr>r_comment := c\<rparr>))"

definition update_review ::
  "db \<Rightarrow> uid \<Rightarrow> uid \<Rightarrow> int option \<Rightarrow> string option \<Rightarrow> failure + db" where
  "update_review d caller rid rating comment =
     (if update_body_errors rating comment \<noteq> []
      then Inl (ValidationErrors (update_body_errors rating comment))
      else case findById_review d rid of
        None \<Rightarrow> Inl (Failure 404 ''Review not found'')
      | Some review \<Rightarrow>
          if r_userId review \<noteq> caller
          then Inl (Failure 403 ''Access denied. You are not the owner.'')
          else
            let d1 = d\<lparr>reviews := update_first (\<lambda>r. r_id r = rid)
                                     (updateData rating comment) (reviews d)\<rparr>
            in (case rating of
                  None \<Rightarrow> Inr d1
                | Some v \<Rightarrow> Inr (updateSellerRatings (r_sellerId review)
                                  (updateProductRatings (r_productId review) d1))))"

text \<open>\<open>DELETE /api/reviews/:id\<close>\<close>

definition delete_review :: "db \<Rightarrow> uid \<Rightarrow> uid \<Rightarrow> failure + db" where
  "delete_review d caller rid =
     (case findById_review d rid of
        None \<Rightarrow> Inl (Failure 404 ''Review not found'')
      | Some review \<Rightarrow>
          if r_userId review \<noteq> caller
          then Inl (Failure 403 ''Access denied. You are not the owner.'')
          else Inr (updateSellerRatings (r_sellerId review)
                     (updateProductRatings (r_productId review)
                        (d\<lparr>reviews := delete_first (\<lambda>r. r_id r = rid) (reviews d)\<rparr>))))"

section \<open>Admin user deletion (routes/admin.js)\<close>

text \<open>
  \<open>DELETE /admin/users/:id\<close> behind \<open>isAdmin\<close>. The three deletions of \<open>Promise.all\<close>
  touch three different collections.
\<close>

definition admin_delete_user :: "db \<Rightarrow> req_user \<Rightarrow> uid \<Rightarrow> failure + db" where
  "admin_delete_user d u userId =
     (if au_role u \<noteq> Admin
      then Inl (Failure 403 ''Access denied. Admin role required.'')
      else case users d userId of
        None \<Rightarrow> Inl (Failure 404 ''User not found'')
      | Some target \<Rightarrow>
          if u_role target = Admin \<and> userId \<noteq> au_id u
          then Inl (Failure 403 ''Cannot delete other admin users'')
          else Inr (d\<lparr>products := (\<lambda>k. case products d k of
                                        None \<Rightarrow> None
                                      | Some p \<Rightarrow> if p_sellerId p = userId then None else Some p),
                      reviews := filter (\<lambda>r. r_userId r \<noteq> userId) (reviews d),
                      users := (users d)(userId := None)\<rparr>))"

section \<open>Requests and runs\<close>

text \<open>
  One constructor for each modelled endpoint, with the caller first. A request that
  fails answers with its error and leaves the collections as they were.
\<close>

datatype request =
    Purchase uid uid
  | ConfirmPurchase uid uid
  | CancelPurchase uid uid
  | CreateOrder uid uid uid address "string option"
  | ShipOrder uid uid "string option"
  | ConfirmDelivery uid uid
  | CancelOrder uid uid
  | CreateReview uid uid uid int string "review_type option"
  | UpdateReview uid uid "int option" "string option"
  | DeleteReview uid uid
  | DeleteProductRoute req_user uid
  | DeleteProductController uid uid
  | AdminDeleteUser req_user uid

fun handle :: "db \<Rightarrow> request \<Rightarrow> failure + db" where
  "handle d (Purchase c pid) = purchase d c pid"
| "handle d (ConfirmPurchase c pid) = confirm_purchase d c pid"
| "handle d (CancelPurchase c pid) = cancel_purchase d c pid"
| "handle d (CreateOrder c oid pid addr notes) = create_order d c oid pid addr notes"
| "handle d (ShipOrder c oid t) = ship_order d c oid t"
| "handle d (ConfirmDelivery c oid) = confirm_delivery d c oid"
| "handle d (CancelOrder c oid) = cancel_order d c oid"
| "handle d (CreateReview c rid pid rating comment rt) = create_review d c rid pid rating comment rt"
| "handle d (UpdateReview c rid rating comment) = update_review d c rid rating comment"
| "handle d (DeleteReview c rid) = delete_review d c rid"
| "handle d (DeleteProductRoute u pid) = delete_product d u pid"
| "handle d (DeleteProductController c pid) = deleteProduct d c pid"
| "handle d (AdminDeleteUser u userId) = admin_delete_user d u userId"

definition step :: "db \<Rightarrow> request \<Rightarrow> db" where
  "step d rq = (case handle d rq of Inl _ \<Rightarrow> d | Inr d' \<Rightarrow> d')"

definition run :: "db \<Rightarrow> request list \<Rightarrow> db" where
  "run d rqs = foldl step d rqs"

text \<open>The three groups of endpoints the claims speak about.\<close>

fun listing_request :: "request \<Rightarrow> bool" where
  "listing_request (Purchase c pid) = True"
| "listing_request (ConfirmPurchase c pid) = True"
| "listing_request (CancelPurchase c pid) = True"
| "listing_request rq = False"

fun order_request :: "request \<Rightarrow> bool" where
  "order_request (CreateOrder c oid pid addr notes) = True"
| "order_request (ShipOrder c oid t) = True"
| "order_request (ConfirmDelivery c oid) = True"
| "order_request (CancelOrder c oid) = True"
| "order_request rq = False"

fun review_request :: "request \<Rightarrow> bool" where
  "review_request (CreateReview c rid pid rating comment rt) = True"
| "review_request (UpdateReview c rid rating comment) = True"
| "review_request (DeleteReview c rid) = True"
| "review_request rq = False"

section \<open>Properties named by the specification\<close>

text \<open>The Product invariant: a buyer is recorded exactly while the listing is pending or sold.\<close>

definition product_ok :: "product \<Rightarrow> bool" where
  "product_ok p = ((p_buyerId p \<noteq> None) = (p_status p = Pending \<or> p_status p = Sold))"

definition listing_inv :: "db \<Rightarrow> bool" where
  "listing_inv d = (\<forall>pid p. products d pid = Some p \<longrightarrow> product_ok p)"

text \<open>The Order invariant that ties the payment flag to the order status.\<close>

definition order_ok :: "order \<Rightarrow> bool" where
  "order_ok ord =
     ((o_paymentStatus ord = Released \<longrightarrow> o_status ord = Completed) \<and>
      (o_paymentStatus ord = Refunded \<longrightarrow> o_status ord = Cancelled))"

text \<open>
  The aggregate as the specification words it: the count of the reviews and the
  arithmetic mean of their ratings, 0 when there are none.
\<close>

definition aggregate :: "review list \<Rightarrow> ratings" where
  "aggregate rs =
     \<lparr>average = (if rs = [] then 0
                 else of_int (sum_list (map r_rating rs)) / of_nat (length rs)),
      count = length rs\<rparr>"

definition product_ratings_ok :: "db \<Rightarrow> bool" where
  "product_ratings_ok d =
     (\<forall>pid p. products d pid = Some p \<longrightarrow>
        p_ratings p = aggregate (filter (\<lambda>r. r_productId r = pid) (reviews d)))"

definition seller_ratings_ok :: "db \<Rightarrow> bool" where
  "seller_ratings_ok d =
     (\<forall>sid u. users d sid = Some u \<longrightarrow>
        u_ratings u = aggregate (filter (\<lambda>r. r_sellerId r = sid) (reviews d)))"

definition ratings_consistent :: "db \<Rightarrow> bool" where
  "ratings_consistent d = (product_ratings_ok d \<and> seller_ratings_ok d)"

text \<open>At most one review for each pair of product and author.\<close>

definition review_pairs :: "db \<Rightarrow> (uid \<times> uid) list" where
  "review_pairs d = map (\<lambda>r. (r_productId r, r_userId r)) (reviews d)"

section \<open>Example states\<close>

text \<open>
  A small marketplace used to instantiate the theorems: seller 1, buyers 2 and 3,
  admin 9, and product 10 listed by the seller at price 100.
\<close>

definition ex_address :: address where
  "ex_address = \<lparr>street = ''1 Main St'', city = ''Springfield'', state = ''IL'',
                  zipCode = ''62701'', country = ''US''\<rparr>"

definition no_ratings :: ratings where
  "no_ratings = \<lparr>average = 0, count = 0\<rparr>"

definition ex_product :: product where
  "ex_product = \<lparr>p_title = ''Desk lamp'', p_description = ''Brass desk lamp'',
                  p_price = 100, p_category = ''Home & Garden'',
                  p_sellerId = 1, p_status = Available, p_buyerId = None,
                  p_ratings = no_ratings\<rparr>"

definition ex_users :: "uid \<rightharpoonup> user" where
  "ex_users = [1 \<mapsto> \<lparr>u_role = Seller, u_ratings = no_ratings\<rparr>,
               2 \<mapsto> \<lparr>u_role = Buyer, u_ratings = no_ratings\<rparr>,
               3 \<mapsto> \<lparr>u_role = Buyer, u_ratings = no_ratings\<rparr>,
               9 \<mapsto> \<lparr>u_role = Admin, u_ratings = no_ratings\<rparr>]"

definition ex_db :: db where
  "ex_db = \<lparr>products = [10 \<mapsto> ex_product], orders = Map.empty, reviews = [],
             users = ex_users\<rparr>"

text \<open>
  The same listing after its seller set the price to -5 through \<open>updateProduct\<close>,
  which writes without validators.
\<close>

definition ex_underpriced :: db where
  "ex_underpriced = ex_db\<lparr>products := [10 \<mapsto> ex_product\<lparr>p_price := - 5\<rparr>]\<rparr>"

definition ex_admin :: req_user where
  "ex_admin = \<lparr>au_id = 9, au_role = Admin\<rparr>"

definition ex_seller :: req_user where
  "ex_seller = \<lparr>au_id = 1, au_role = Seller\<rparr>"

text \<open>Buyer 2 purchases product 10 and confirms: the listing is sold to buyer 2.\<close>

definition ex_sold :: db where
  "ex_sold = run ex_db [Purchase 2 10, ConfirmPurchase 2 10]"

text \<open>Buyer 2 then reviews product 10 (review 30, rating 4).\<close>

definition ex_reviewed :: db where
  "ex_reviewed = run ex_sold [CreateReview 2 30 10 4 ''good'' None]"

text \<open>The admin then deletes seller 1: product 10 goes, the review of buyer 2 stays.\<close>

definition ex_orphaned :: db where
  "ex_orphaned = run ex_reviewed [AdminDeleteUser ex_admin 1]"

text \<open>An order 20 of buyer 2 for product 10, already shipped by the seller.\<close>

definition ex_shipped_order :: order where
  "ex_shipped_order = \<lparr>o_productId = 10, o_buyerId = 2, o_sellerId = 1, o_amount = 100,
       o_status = Shipped, o_paymentStatus = Escrowed, o_shippingAddress = ex_address,
       o_trackingNumber = Some ''TRK1'', o_notes = None\<rparr>"

definition ex_shipped :: db where
  "ex_shipped = ex_db\<lparr>products := [10 \<mapsto> ex_product\<lparr>p_status := Pending\<rparr>],
                      orders := [20 \<mapsto> ex_shipped_order]\<rparr>"

section \<open>Unfolding the handlers\<close>

lemmas ex_defs = ex_db_def ex_product_def ex_users_def ex_address_def no_ratings_def
  ex_underpriced_def
  ex_admin_def ex_seller_def ex_sold_def ex_shipped_def ex_shipped_order_def
  ex_reviewed_def ex_orphaned_def

lemmas handler_defs = purchase_def confirm_purchase_def cancel_purchase_def create_order_def
  ship_order_def confirm_delivery_def cancel_order_def create_review_def update_review_def
  delete_review_def delete_product_def deleteProduct_def admin_delete_user_def
  set_product_status_def updateProductRatings_def updateSellerRatings_def
  findById_review_def findOne_review_def rating_summary_def order_body_errors_def
  new_review_def updateData_def validate_product_def product_categories_def
  review_body_errors_def rating_errors_def update_body_errors_def

lemma ex_sold_product:
  "products ex_sold 10 = Some (ex_product\<lparr>p_status := Sold, p_buyerId := Some 2\<rparr>)"
  by (simp add: ex_defs run_def step_def handler_defs)

section \<open>Purchase\<close>

text \<open>
  Claim C6, as amended. For a stored Product, purchase succeeds exactly when the status
  is available, the caller is not the seller and the document with the new status and
  buyerId passes the schema validators that \<open>product.save()\<close> runs; it then sets
  status to pending and buyerId to the caller and changes nothing else. A status other
  than available is refused with the status 400 answer ``Product is not available for
  purchase'' (the Conflict of the specification), an available product requested by its
  own seller with the status 400 answer ``You cannot purchase your own product''
  (InvalidOperation), so the seller never succeeds; an available product of another
  seller whose stored document fails a validator is answered 500. A refused request
  leaves the collections as they were.
\<close>

theorem purchase_spec:
  assumes "products d pid = Some p"
  shows "((\<exists>d'. purchase d caller pid = Inr d') \<longleftrightarrow>
            (p_status p = Available \<and> caller \<noteq> p_sellerId p
             \<and> validate_product (p\<lparr>p_status := Pending, p_buyerId := Some caller\<rparr>)))
       \<and> (p_status p = Available \<and> caller \<noteq> p_sellerId p
            \<and> validate_product (p\<lparr>p_status := Pending, p_buyerId := Some caller\<rparr>) \<longrightarrow>
            purchase d caller pid =
              Inr (d\<lparr>products :=
                     (products d)(pid \<mapsto> p\<lparr>p_status := Pending, p_buyerId := Some caller\<rparr>)\<rparr>))
       \<and> (p_status p \<noteq> Available \<longrightarrow>
            purchase d caller pid = Inl (Failure 400 ''Product is not available for purchase''))
       \<and> (p_status p = Available \<and> caller = p_sellerId p \<longrightarrow>
            purchase d caller pid = Inl (Failure 400 ''You cannot purchase your own product''))
       \<and> (p_status p = Available \<and> caller \<noteq> p_sellerId p
            \<and> \<not> validate_product (p\<lparr>p_status := Pending, p_buyerId := Some caller\<rparr>) \<longrightarrow>
            purchase d caller pid = Inl (Failure 500 ''Server error processing purchase''))
       \<and> (caller = p_sellerId p \<longrightarrow> isl (purchase d caller pid))
       \<and> (isl (purchase d caller pid) \<longrightarrow> step d (Purchase caller pid) = d)"
  using assms by (auto simp: purchase_def Let_def step_def split: sum.splits)

lemma ex_product_valid:
  "validate_product (ex_product\<lparr>p_status := st, p_buyerId := b\<rparr>) \<longleftrightarrow> st \<noteq> Suspended"
  by (cases st) (simp_all add: validate_product_def product_categories_def ex_product_def)

theorem purchase_spec_witness:
  "products ex_db 10 = Some ex_product
   \<and> purchase ex_db 2 10 =
       Inr (ex_db\<lparr>products :=
              (products ex_db)(10 \<mapsto> ex_product\<lparr>p_status := Pending, p_buyerId := Some 2\<rparr>)\<rparr>)
   \<and> purchase ex_db 1 10 = Inl (Failure 400 ''You cannot purchase your own product'')
   \<and> step ex_db (Purchase 1 10) = ex_db"
proof -
  have p: "products ex_db 10 = Some ex_product"
    by (simp add: ex_db_def)
  have a: "p_status ex_product = Available" "p_sellerId ex_product = 1"
    by (simp_all add: ex_product_def)
  from purchase_spec [OF p, of 2] purchase_spec [OF p, of 1] p a ex_product_valid show ?thesis
    by simp
qed

text \<open>
  The claim as first stated has purchase succeed whenever the status is available and
  the caller is not the seller. Product 10 with the stored price -5 is available and
  buyer 2 is not its seller, yet \<open>save\<close> rejects the document and the purchase is
  answered 500.
\<close>

theorem purchase_invalid_document_counterexample:
  "products ex_underpriced 10 = Some (ex_product\<lparr>p_price := - 5\<rparr>)
   \<and> p_status (ex_product\<lparr>p_price := - 5\<rparr>) = Available
   \<and> p_sellerId (ex_product\<lparr>p_price := - 5\<rparr>) \<noteq> 2
   \<and> purchase ex_underpriced 2 10 = Inl (Failure 500 ''Server error processing purchase'')"
  by (simp add: ex_underpriced_def ex_product_def purchase_def validate_product_def)

section \<open>Confirming delivery\<close>

text \<open>
  Claim C3. For a stored Order, confirm-delivery succeeds exactly when the caller is the
  order's buyer and the order is shipped. On success the order is completed with payment
  released and the linked Product, when it is stored, is sold, all in the one resulting
  state. A caller who is not the buyer is answered 403, the buyer of an order that is
  not shipped 400, and a refused request changes nothing.
\<close>

theorem confirm_delivery_spec:
  assumes "orders d oid = Some ord"
  shows "((\<exists>d'. confirm_delivery d caller oid = Inr d') \<longleftrightarrow>
            (caller = o_buyerId ord \<and> o_status ord = Shipped))
       \<and> (\<forall>d'. confirm_delivery d caller oid = Inr d' \<longrightarrow>
            orders d' oid = Some (ord\<lparr>o_status := Completed, o_paymentStatus := Released\<rparr>)
            \<and> (\<forall>p. products d (o_productId ord) = Some p \<longrightarrow>
                  products d' (o_productId ord) = Some (p\<lparr>p_status := Sold\<rparr>)))
       \<and> (caller \<noteq> o_buyerId ord \<longrightarrow>
            confirm_delivery d caller oid = Inl (Failure 403 ''Access denied''))
       \<and> (caller = o_buyerId ord \<and> o_status ord \<noteq> Shipped \<longrightarrow>
            confirm_delivery d caller oid =
              Inl (Failure 400 ''Order must be shipped before delivery confirmation''))
       \<and> (isl (confirm_delivery d caller oid) \<longrightarrow> step d (ConfirmDelivery caller oid) = d)"
  using assms
  by (auto simp: confirm_delivery_def set_product_status_def step_def
           split: sum.splits option.splits)

theorem confirm_delivery_spec_witness:
  "orders ex_shipped 20 = Some ex_shipped_order
   \<and> (\<exists>d'. confirm_delivery ex_shipped 2 20 = Inr d'
        \<and> orders d' 20 =
            Some (ex_shipped_order\<lparr>o_status := Completed, o_paymentStatus := Released\<rparr>)
        \<and> products d' 10 = Some (ex_product\<lparr>p_status := Sold\<rparr>))
   \<and> confirm_delivery ex_shipped 3 20 = Inl (Failure 403 ''Access denied'')
   \<and> step ex_shipped (ConfirmDelivery 3 20) = ex_shipped"
proof -
  have o: "orders ex_shipped 20 = Some ex_shipped_order"
    by (simp add: ex_shipped_def)
  have f: "o_buyerId ex_shipped_order = 2" "o_status ex_shipped_order = Shipped"
    "o_productId ex_shipped_order = 10"
    "products ex_shipped 10 = Some (ex_product\<lparr>p_status := Pending\<rparr>)"
    by (simp_all add: ex_shipped_order_def ex_shipped_def)
  from confirm_delivery_spec [OF o, of 2] f obtain d' where
    d': "confirm_delivery ex_shipped 2 20 = Inr d'"
    by auto
  with confirm_delivery_spec [OF o, of 2] f have
    "orders d' 20 =
       Some (ex_shipped_order\<lparr>o_status := Completed, o_paymentStatus := Released\<rparr>)"
    "products d' 10 = Some (ex_product\<lparr>p_status := Sold\<rparr>)"
    by auto
  with d' confirm_delivery_spec [OF o, of 3] o f show ?thesis
    by auto
qed

section \<open>Cancelling an order\<close>

text \<open>
  Claim C4, as amended. For a stored Order, cancel succeeds exactly when the caller is
  the order's buyer or seller and the order is neither completed nor cancelled. On
  success the order is cancelled with payment refunded and the linked Product, when it is
  stored, is available again; the handler writes \<open>status\<close> only, so the buyerId of
  every Product stays what it was. Any other caller is answered 403, the buyer or seller
  of a completed or cancelled order 400, and a refused request changes nothing.
\<close>

theorem cancel_order_spec:
  assumes "orders d oid = Some ord"
  shows "((\<exists>d'. cancel_order d caller oid = Inr d') \<longleftrightarrow>
            ((caller = o_buyerId ord \<or> caller = o_sellerId ord)
             \<and> o_status ord \<noteq> Completed \<and> o_status ord \<noteq> Cancelled))
       \<and> (\<forall>d'. cancel_order d caller oid = Inr d' \<longrightarrow>
            orders d' oid = Some (ord\<lparr>o_status := Cancelled, o_paymentStatus := Refunded\<rparr>)
            \<and> (\<forall>p. products d (o_productId ord) = Some p \<longrightarrow>
                  products d' (o_productId ord) = Some (p\<lparr>p_status := Available\<rparr>))
            \<and> (\<forall>k. map_option p_buyerId (products d' k) = map_option p_buyerId (products d k)))
       \<and> (caller \<noteq> o_buyerId ord \<and> caller \<noteq> o_sellerId ord \<longrightarrow>
            cancel_order d caller oid = Inl (Failure 403 ''Access denied''))
       \<and> ((caller = o_buyerId ord \<or> caller = o_sellerId ord)
            \<and> (o_status ord = Completed \<or> o_status ord = Cancelled) \<longrightarrow>
            cancel_order d caller oid = Inl (Failure 400 ''Cannot cancel this order''))
       \<and> (isl (cancel_order d caller oid) \<longrightarrow> step d (CancelOrder caller oid) = d)"
  using assms
  by (auto simp: cancel_order_def set_product_status_def step_def
           split: sum.splits option.splits)

theorem cancel_order_spec_witness:
  "orders ex_shipped 20 = Some ex_shipped_order
   \<and> (\<exists>d'. cancel_order ex_shipped 1 20 = Inr d'
        \<and> orders d' 20 =
            Some (ex_shipped_order\<lparr>o_status := Cancelled, o_paymentStatus := Refunded\<rparr>)
        \<and> products d' 10 = Some (ex_product\<lparr>p_status := Available\<rparr>)
        \<and> map_option p_buyerId (products d' 10) = Some None)
   \<and> cancel_order ex_shipped 3 20 = Inl (Failure 403 ''Access denied'')
   \<and> step ex_shipped (CancelOrder 3 20) = ex_shipped"
proof -
  have o: "orders ex_shipped 20 = Some ex_shipped_order"
    by (simp add: ex_shipped_def)
  have f: "o_buyerId ex_shipped_order = 2" "o_sellerId ex_shipped_order = 1"
    "o_status ex_shipped_order = Shipped" "o_productId ex_shipped_order = 10"
    "products ex_shipped 10 = Some (ex_product\<lparr>p_status := Pending\<rparr>)"
    by (simp_all add: ex_shipped_order_def ex_shipped_def)
  from cancel_order_spec [OF o, of 1] f obtain d' where
    d': "cancel_order ex_shipped 1 20 = Inr d'"
    by auto
  with cancel_order_spec [OF o, of 1] f have
    "orders d' 20 =
       Some (ex_shipped_order\<lparr>o_status := Cancelled, o_paymentStatus := Refunded\<rparr>)"
    "products d' 10 = Some (ex_product\<lparr>p_status := Available\<rparr>)"
    by auto
  moreover from this have "map_option p_buyerId (products d' 10) = Some None"
    by (simp add: ex_product_def)
  ultimately show ?thesis
    using d' cancel_order_spec [OF o, of 3] o f by auto
qed

text \<open>
  The claim as first stated also has cancel clear the Product's buyerId. Buyer 2 orders
  product 10, the seller cancels the listing's pending purchase, buyer 3 purchases it,
  and buyer 2 then cancels the order: the product is available again and still records
  buyer 3.
\<close>

theorem cancel_order_clears_buyer_counterexample:
  "products (run ex_db [CreateOrder 2 20 10 ex_address None, CancelPurchase 1 10,
                        Purchase 3 10]) 10
     = Some (ex_product\<lparr>p_status := Pending, p_buyerId := Some 3\<rparr>)
   \<and> map_option o_status
        (orders (run ex_db [CreateOrder 2 20 10 ex_address None, CancelPurchase 1 10,
                            Purchase 3 10]) 20) = Some OPending
   \<and> products (run ex_db [CreateOrder 2 20 10 ex_address None, CancelPurchase 1 10,
                          Purchase 3 10, CancelOrder 2 20]) 10
     = Some (ex_product\<lparr>p_status := Available, p_buyerId := Some 3\<rparr>)
   \<and> map_option o_status
        (orders (run ex_db [CreateOrder 2 20 10 ex_address None, CancelPurchase 1 10,
                            Purchase 3 10, CancelOrder 2 20]) 20) = Some Cancelled"
  by (simp add: ex_defs run_def step_def handler_defs)

section \<open>Deleting a product\<close>

text \<open>
  Claim C9 asks that a Product whose status is not available cannot be deleted by its
  seller. The route \<open>DELETE /api/products/:id\<close> refuses a sold listing;
  \<open>deleteProduct\<close> of the product controller has no status guard and deletes the same
  sold listing.
\<close>

theorem deleteProduct_sold:
  "products ex_sold 10 = Some (ex_product\<lparr>p_status := Sold, p_buyerId := Some 2\<rparr>)
   \<and> delete_product ex_sold ex_seller 10 =
       Inl (Failure 400 ''Cannot delete a sold or pending product'')
   \<and> deleteProduct ex_sold 1 10 = Inr (ex_sold\<lparr>products := (products ex_sold)(10 := None)\<rparr>)
   \<and> products (step ex_sold (DeleteProductController 1 10)) 10 = None"
  using ex_sold_product
  by (simp add: delete_product_def deleteProduct_def step_def ex_seller_def ex_product_def)

section \<open>Admin user deletion\<close>

text \<open>
  Claim C10. A successful admin deletion of a user removes the Products that user sells,
  the Reviews that user wrote and the User document, and recomputes nothing: every
  Product and User that remains has the ratings average and count it had before, also
  when a Review counted in them has just been deleted.
\<close>

theorem admin_delete_user_frame:
  assumes "admin_delete_user d u userId = Inr d'"
  shows "(\<forall>pid. products d' pid =
            (case products d pid of
               None \<Rightarrow> None
             | Some p \<Rightarrow> if p_sellerId p = userId then None else Some p))
       \<and> reviews d' = filter (\<lambda>r. r_userId r \<noteq> userId) (reviews d)
       \<and> users d' = (users d)(userId := None)
       \<and> (\<forall>pid p'. products d' pid = Some p' \<longrightarrow>
            (\<exists>p. products d pid = Some p \<and> average (p_ratings p') = average (p_ratings p)
                 \<and> count (p_ratings p') = count (p_ratings p)))
       \<and> (\<forall>k u'. users d' k = Some u' \<longrightarrow>
            (\<exists>v. users d k = Some v \<and> average (u_ratings u') = average (u_ratings v)
                 \<and> count (u_ratings u') = count (u_ratings v)))"
  using assms
  by (auto simp: admin_delete_user_def split: if_splits option.splits)

text \<open>
  Buyer 2 reviews the sold product 10 with rating 4 and is then deleted: no review is
  left, and product 10 and seller 1 still show average 4 over 1 review.
\<close>

theorem admin_delete_user_frame_witness:
  "(\<exists>d'. admin_delete_user (run ex_sold [CreateReview 2 30 10 4 ''good'' None]) ex_admin 2 = Inr d'
      \<and> reviews d' = []
      \<and> map_option p_ratings (products d' 10) = Some \<lparr>average = 4, count = 1\<rparr>
      \<and> map_option u_ratings (users d' 1) = Some \<lparr>average = 4, count = 1\<rparr>)"
proof -
  let ?d = "run ex_sold [CreateReview 2 30 10 4 ''good'' None]"
  have r: "reviews ?d = [\<lparr>r_id = 30, r_productId = 10, r_userId = 2, r_sellerId = 1,
             r_rating = 4, r_comment = ''good'', r_reviewType = ProductReview\<rparr>]"
    and p: "products ?d 10 = Some (ex_product\<lparr>p_status := Sold, p_buyerId := Some 2,
              p_ratings := \<lparr>average = 4, count = 1\<rparr>\<rparr>)"
    and u: "users ?d 1 = Some \<lparr>u_role = Seller, u_ratings = \<lparr>average = 4, count = 1\<rparr>\<rparr>"
    and u2: "users ?d 2 = Some \<lparr>u_role = Buyer, u_ratings = no_ratings\<rparr>"
    by (simp_all add: ex_defs run_def step_def handler_defs)
  have "\<exists>d'. admin_delete_user ?d ex_admin 2 = Inr d'"
    using u2 by (simp add: admin_delete_user_def ex_admin_def)
  then obtain d' where d': "admin_delete_user ?d ex_admin 2 = Inr d'" ..
  from admin_delete_user_frame [OF d'] r p u have
    "reviews d' = []"
    "map_option p_ratings (products d' 10) = Some \<lparr>average = 4, count = 1\<rparr>"
    "map_option u_ratings (users d' 1) = Some \<lparr>average = 4, count = 1\<rparr>"
    by (simp_all add: ex_product_def)
  with d' show ?thesis by blast
qed

section \<open>What the handlers leave alone\<close>

lemma set_product_status_frame [simp]:
  "orders (set_product_status pid st d) = orders d"
  "reviews (set_product_status pid st d) = reviews d"
  "users (set_product_status pid st d) = users d"
  by (simp_all add: set_product_status_def split: option.splits)

lemma updateProductRatings_frame [simp]:
  "orders (updateProductRatings pid d) = orders d"
  "reviews (updateProductRatings pid d) = reviews d"
  "users (updateProductRatings pid d) = users d"
  by (simp_all add: updateProductRatings_def Let_def split: option.splits)

lemma updateSellerRatings_frame [simp]:
  "orders (updateSellerRatings sid d) = orders d"
  "reviews (updateSellerRatings sid d) = reviews d"
  "products (updateSellerRatings sid d) = products d"
  by (simp_all add: updateSellerRatings_def Let_def split: option.splits)

lemma listing_orders:
  "purchase d c pid = Inr d' \<Longrightarrow> orders d' = orders d"
  "confirm_purchase d c pid = Inr d' \<Longrightarrow> orders d' = orders d"
  "cancel_purchase d c pid = Inr d' \<Longrightarrow> orders d' = orders d"
  "delete_product d u pid = Inr d' \<Longrightarrow> orders d' = orders d"
  "deleteProduct d c pid = Inr d' \<Longrightarrow> orders d' = orders d"
  "admin_delete_user d u k = Inr d' \<Longrightarrow> orders d' = orders d"
  by (auto simp: purchase_def confirm_purchase_def cancel_purchase_def delete_product_def
        deleteProduct_def admin_delete_user_def Let_def split: option.splits if_splits)

lemma create_review_orders:
  "create_review d c rid pid rating comment rt = Inr d' \<Longrightarrow> orders d' = orders d"
  unfolding create_review_def Let_def
  by (simp split: option.splits if_splits) auto

lemma update_review_orders:
  "update_review d c rid rating comment = Inr d' \<Longrightarrow> orders d' = orders d"
  unfolding update_review_def Let_def
  by (simp split: option.splits if_splits) auto

lemma delete_review_orders:
  "delete_review d c rid = Inr d' \<Longrightarrow> orders d' = orders d"
  unfolding delete_review_def
  by (simp split: option.splits if_splits) auto

lemma step_orders_other:
  "\<not> order_request rq \<Longrightarrow> orders (step d rq) = orders d"
  by (cases rq)
     (auto simp: step_def listing_orders create_review_orders update_review_orders
        delete_review_orders split: sum.splits)

section \<open>Each order handler on the Order collection\<close>

lemma create_order_orders:
  assumes "create_order d c oid pid addr nts = Inr d'"
  shows "orders d oid = None \<and>
         (\<exists>ord. orders d' = (orders d)(oid \<mapsto> ord) \<and> o_status ord = OPending
                \<and> o_paymentStatus ord = Escrowed)"
proof -
  from assms obtain p where "products d pid = Some p"
    by (cases "products d pid") (simp_all add: create_order_def split: if_splits)
  with assms show ?thesis
    by (auto simp: create_order_def Let_def split: if_splits)
qed

lemma ship_order_orders:
  assumes "ship_order d c oid t = Inr d'"
  shows "\<exists>ord ord'. orders d oid = Some ord \<and> o_status ord = Confirmed
           \<and> orders d' = (orders d)(oid \<mapsto> ord') \<and> o_status ord' = Shipped
           \<and> o_paymentStatus ord' = o_paymentStatus ord"
proof -
  from assms obtain ord where "orders d oid = Some ord"
    by (cases "orders d oid") (simp_all add: ship_order_def)
  with assms show ?thesis
    by (cases t) (auto simp: ship_order_def Let_def split: if_splits)
qed

lemma confirm_delivery_orders:
  assumes "confirm_delivery d c oid = Inr d'"
  shows "\<exists>ord ord'. orders d oid = Some ord \<and> o_status ord = Shipped
           \<and> orders d' = (orders d)(oid \<mapsto> ord') \<and> o_status ord' = Completed
           \<and> o_paymentStatus ord' = Released"
proof -
  from assms obtain ord where "orders d oid = Some ord"
    by (cases "orders d oid") (simp_all add: confirm_delivery_def)
  with assms show ?thesis
    by (auto simp: confirm_delivery_def split: if_splits)
qed

lemma cancel_order_orders:
  assumes "cancel_order d c oid = Inr d'"
  shows "\<exists>ord ord'. orders d oid = Some ord
           \<and> orders d' = (orders d)(oid \<mapsto> ord') \<and> o_status ord' = Cancelled
           \<and> o_paymentStatus ord' = Refunded"
proof -
  from assms obtain ord where "orders d oid = Some ord"
    by (cases "orders d oid") (simp_all add: cancel_order_def)
  with assms show ?thesis
    by (auto simp: cancel_order_def Let_def split: if_splits)
qed

lemma step_orders_cases:
  assumes "orders (step d rq) oid = Some ord'"
  shows "orders d oid = Some ord'
       \<or> (orders d oid = None \<and> o_status ord' = OPending \<and> o_paymentStatus ord' = Escrowed)
       \<or> (\<exists>ord. orders d oid = Some ord \<and> o_status ord = Confirmed \<and> o_status ord' = Shipped
              \<and> o_paymentStatus ord' = o_paymentStatus ord)
       \<or> (\<exists>ord. orders d oid = Some ord \<and> o_status ord = Shipped \<and> o_status ord' = Completed
              \<and> o_paymentStatus ord' = Released)
       \<or> (\<exists>ord. orders d oid = Some ord \<and> o_status ord' = Cancelled
              \<and> o_paymentStatus ord' = Refunded)"
proof (cases "handle d rq")
  case (Inl e)
  with assms show ?thesis by (simp add: step_def)
next
  case (Inr d')
  then have s: "step d rq = d'" by (simp add: step_def)
  show ?thesis
  proof (cases "order_request rq")
    case False
    with assms show ?thesis by (simp add: step_orders_other)
  next
    case True
    then show ?thesis
    proof (cases rq)
      case (CreateOrder c oid' pid addr nts)
      with Inr have "create_order d c oid' pid addr nts = Inr d'" by simp
      from create_order_orders [OF this] assms s show ?thesis
        by (cases "oid = oid'") auto
    next
      case (ShipOrder c oid' t)
      with Inr have "ship_order d c oid' t = Inr d'" by simp
      from ship_order_orders [OF this] assms s show ?thesis
        by (cases "oid = oid'") auto
    next
      case (ConfirmDelivery c oid')
      with Inr have "confirm_delivery d c oid' = Inr d'" by simp
      from confirm_delivery_orders [OF this] assms s show ?thesis
        by (cases "oid = oid'") auto
    next
      case (CancelOrder c oid')
      with Inr have "cancel_order d c oid' = Inr d'" by simp
      from cancel_order_orders [OF this] assms s show ?thesis
        by (cases "oid = oid'") auto
    qed simp_all
  qed
qed

lemma step_orders_kept:
  assumes "orders d oid = Some ord"
  shows "\<exists>ord'. orders (step d rq) oid = Some ord'"
proof (cases "handle d rq")
  case (Inl e)
  with assms show ?thesis by (simp add: step_def)
next
  case (Inr d')
  then have s: "step d rq = d'" by (simp add: step_def)
  show ?thesis
  proof (cases "order_request rq")
    case False
    with assms show ?thesis by (simp add: step_orders_other)
  next
    case True
    then show ?thesis
    proof (cases rq)
      case (CreateOrder c oid' pid addr nts)
      with Inr have "create_order d c oid' pid addr nts = Inr d'" by simp
      from create_order_orders [OF this] assms s show ?thesis
        by (cases "oid = oid'") auto
    next
      case (ShipOrder c oid' t)
      with Inr have "ship_order d c oid' t = Inr d'" by simp
      from ship_order_orders [OF this] assms s show ?thesis
        by (cases "oid = oid'") auto
    next
      case (ConfirmDelivery c oid')
      with Inr have "confirm_delivery d c oid' = Inr d'" by simp
      from confirm_delivery_orders [OF this] assms s show ?thesis
        by (cases "oid = oid'") auto
    next
      case (CancelOrder c oid')
      with Inr have "cancel_order d c oid' = Inr d'" by simp
      from cancel_order_orders [OF this] assms s show ?thesis
        by (cases "oid = oid'") auto
    qed simp_all
  qed
qed

section \<open>Runs\<close>

lemma run_Nil [simp]: "run d [] = d"
  by (simp add: run_def)

lemma run_Cons [simp]: "run d (rq # rqs) = run (step d rq) rqs"
  by (simp add: run_def)

lemma step_order_ok:
  assumes "\<forall>oid ord. orders d oid = Some ord \<longrightarrow> order_ok ord"
  shows "\<forall>oid ord. orders (step d rq) oid = Some ord \<longrightarrow> order_ok ord"
proof (intro allI impI)
  fix oid ord
  assume "orders (step d rq) oid = Some ord"
  from step_orders_cases [OF this] assms show "order_ok ord"
    by (auto simp: order_ok_def)
qed

lemma run_order_ok:
  "\<forall>oid ord. orders d oid = Some ord \<longrightarrow> order_ok ord \<Longrightarrow>
   \<forall>oid ord. orders (run d rqs) oid = Some ord \<longrightarrow> order_ok ord"
proof (induction rqs arbitrary: d)
  case Nil
  then show ?case by simp
next
  case (Cons rq rqs)
  from Cons.IH [OF step_order_ok [OF Cons.prems]] show ?case
    by simp
qed

section \<open>Payment status and order status\<close>

text \<open>
  Claim C7. Start from a state without orders and serve any list of requests. Every Order
  stored afterwards satisfies: paymentStatus released implies status completed, and
  paymentStatus refunded implies status cancelled.
\<close>

theorem payment_status_invariant:
  assumes "orders d = Map.empty" and "orders (run d rqs) oid = Some ord"
  shows "(o_paymentStatus ord = Released \<longrightarrow> o_status ord = Completed)
       \<and> (o_paymentStatus ord = Refunded \<longrightarrow> o_status ord = Cancelled)"
proof -
  have "\<forall>oid ord. orders d oid = Some ord \<longrightarrow> order_ok ord"
    using assms(1) by simp
  from run_order_ok [OF this, of rqs] assms(2) have "order_ok ord"
    by blast
  then show ?thesis by (simp add: order_ok_def)
qed

theorem payment_status_invariant_witness:
  "orders ex_db = Map.empty
   \<and> map_option o_paymentStatus
        (orders (run ex_db [CreateOrder 2 20 10 ex_address None, CancelOrder 1 20]) 20)
       = Some Refunded
   \<and> map_option o_status
        (orders (run ex_db [CreateOrder 2 20 10 ex_address None, CancelOrder 1 20]) 20)
       = Some Cancelled"
proof -
  let ?rqs = "[CreateOrder 2 20 10 ex_address None, CancelOrder 1 20]"
  have e: "orders ex_db = Map.empty"
    by (simp add: ex_db_def)
  have "\<exists>ord. orders (run ex_db ?rqs) 20 = Some ord \<and> o_paymentStatus ord = Refunded"
    by (simp add: ex_defs step_def handler_defs)
  then obtain ord where o: "orders (run ex_db ?rqs) 20 = Some ord"
    and r: "o_paymentStatus ord = Refunded" by blast
  from payment_status_invariant [OF e o] r have "o_status ord = Cancelled"
    by simp
  with e o r show ?thesis by simp
qed

section \<open>The missing confirmation\<close>

lemma run_pending_or_cancelled:
  "orders d oid = Some ord \<Longrightarrow> o_status ord = OPending \<or> o_status ord = Cancelled \<Longrightarrow>
   \<exists>ord'. orders (run d rqs) oid = Some ord'
         \<and> (o_status ord' = OPending \<or> o_status ord' = Cancelled)"
proof (induction rqs arbitrary: d ord)
  case Nil
  then show ?case by simp
next
  case (Cons rq rqs)
  from step_orders_kept [OF Cons.prems(1)] obtain ord1 where
    o1: "orders (step d rq) oid = Some ord1" by blast
  from step_orders_cases [OF o1] Cons.prems have
    "o_status ord1 = OPending \<or> o_status ord1 = Cancelled"
    by auto
  from Cons.IH [OF o1 this] show ?case by simp
qed

text \<open>
  Claim C5. An Order that the create transition has stored is never brought to status
  confirmed by any later list of requests (ship, confirm-delivery and cancel among them):
  it stays pending or becomes cancelled. So its status is never shipped or completed
  either, and ship on it is refused for every caller and tracking number.
\<close>

theorem created_order_never_confirmed:
  assumes "create_order d caller oid pid addr notes = Inr d0"
  shows "\<exists>ord. orders (run d0 rqs) oid = Some ord
       \<and> o_status ord \<noteq> Confirmed \<and> o_status ord \<noteq> Shipped \<and> o_status ord \<noteq> Completed
       \<and> isl (ship_order (run d0 rqs) c oid t)"
proof -
  from assms obtain ord0 where "orders d0 oid = Some ord0" "o_status ord0 = OPending"
    by (auto simp: create_order_def Let_def split: option.splits if_splits)
  from run_pending_or_cancelled [OF this(1), of rqs] this(2) obtain ord where
    "orders (run d0 rqs) oid = Some ord" "o_status ord = OPending \<or> o_status ord = Cancelled"
    by blast
  then show ?thesis
    by (auto simp: ship_order_def)
qed


theorem created_order_never_confirmed_witness:
  "\<exists>d0. create_order ex_db 2 20 10 ex_address None = Inr d0
     \<and> (\<exists>ord. orders (run d0 [ShipOrder 1 20 (Some ''TRK1''), ConfirmDelivery 2 20]) 20 = Some ord
           \<and> o_status ord \<noteq> Confirmed \<and> o_status ord \<noteq> Shipped \<and> o_status ord \<noteq> Completed
           \<and> isl (ship_order (run d0 [ShipOrder 1 20 (Some ''TRK1''), ConfirmDelivery 2 20])
                    1 20 None))"
proof -
  have "\<exists>d0. create_order ex_db 2 20 10 ex_address None = Inr d0"
    by (simp add: ex_defs create_order_def order_body_errors_def)
  then obtain d0 where c: "create_order ex_db 2 20 10 ex_address None = Inr d0" ..
  from created_order_never_confirmed [OF c] c show ?thesis
    by blast
qed

section \<open>The listing invariant\<close>

lemma set_product_status_buyer:
  "map_option p_buyerId (products (set_product_status pid st d) k) =
   map_option p_buyerId (products d k)"
  by (simp add: set_product_status_def split: option.splits)

lemma set_product_status_products:
  "products (set_product_status pid st d) =
     (case products d pid of
        None \<Rightarrow> products d
      | Some p \<Rightarrow> (products d)(pid \<mapsto> p\<lparr>p_status := st\<rparr>))"
  by (simp add: set_product_status_def split: option.splits)

lemma create_order_products:
  assumes "create_order d c oid pid addr nts = Inr d'"
  shows "\<exists>p. products d pid = Some p \<and> p_status p = Available
           \<and> products d' = (products d)(pid \<mapsto> p\<lparr>p_status := Pending\<rparr>)"
proof -
  from assms obtain p where "products d pid = Some p"
    by (cases "products d pid") (simp_all add: create_order_def split: if_splits)
  with assms show ?thesis
    by (auto simp: create_order_def Let_def set_product_status_products split: if_splits)
qed

lemma ship_order_products:
  assumes "ship_order d c oid t = Inr d'"
  shows "products d' = products d"
proof -
  from assms obtain ord where "orders d oid = Some ord"
    by (cases "orders d oid") (simp_all add: ship_order_def)
  with assms show ?thesis
    by (cases t) (auto simp: ship_order_def Let_def split: if_splits)
qed

lemma confirm_delivery_products:
  assumes "orders d oid = Some ord" and "confirm_delivery d c oid = Inr d'"
  shows "products d' =
           (case products d (o_productId ord) of
              None \<Rightarrow> products d
            | Some p \<Rightarrow> (products d)(o_productId ord \<mapsto> p\<lparr>p_status := Sold\<rparr>))"
  using assms
  by (auto simp: confirm_delivery_def set_product_status_products
        split: if_splits option.splits)

lemma cancel_order_products:
  assumes "orders d oid = Some ord" and "cancel_order d c oid = Inr d'"
  shows "products d' =
           (case products d (o_productId ord) of
              None \<Rightarrow> products d
            | Some p \<Rightarrow> (products d)(o_productId ord \<mapsto> p\<lparr>p_status := Available\<rparr>))"
  using assms
  by (auto simp: cancel_order_def Let_def set_product_status_products
        split: if_splits option.splits)

lemma order_handlers_buyer:
  "create_order d c oid pid addr nts = Inr d' \<Longrightarrow>
     map_option p_buyerId (products d' k) = map_option p_buyerId (products d k)"
  "ship_order d c oid t = Inr d' \<Longrightarrow>
     map_option p_buyerId (products d' k) = map_option p_buyerId (products d k)"
  "confirm_delivery d c oid = Inr d' \<Longrightarrow>
     map_option p_buyerId (products d' k) = map_option p_buyerId (products d k)"
  "cancel_order d c oid = Inr d' \<Longrightarrow>
     map_option p_buyerId (products d' k) = map_option p_buyerId (products d k)"
  by (auto simp: create_order_def ship_order_def confirm_delivery_def cancel_order_def Let_def
        set_product_status_buyer split: option.splits if_splits)

lemma purchase_products:
  assumes "purchase d c pid = Inr d'"
  shows "\<exists>p. products d pid = Some p
           \<and> products d' = (products d)(pid \<mapsto> p\<lparr>p_status := Pending, p_buyerId := Some c\<rparr>)"
proof -
  from assms obtain p where "products d pid = Some p"
    by (cases "products d pid") (simp_all add: purchase_def)
  with assms show ?thesis
    by (auto simp: purchase_def Let_def split: if_splits)
qed

lemma confirm_purchase_products:
  assumes "confirm_purchase d c pid = Inr d'"
  shows "\<exists>p. products d pid = Some p \<and> p_buyerId p = Some c
           \<and> products d' = (products d)(pid \<mapsto> p\<lparr>p_status := Sold\<rparr>)"
proof -
  from assms obtain p where "products d pid = Some p"
    by (cases "products d pid") (simp_all add: confirm_purchase_def)
  with assms show ?thesis
    by (auto simp: confirm_purchase_def Let_def split: if_splits)
qed

lemma cancel_purchase_products:
  assumes "cancel_purchase d c pid = Inr d'"
  shows "\<exists>p. products d pid = Some p
           \<and> products d' = (products d)(pid \<mapsto> p\<lparr>p_status := Available, p_buyerId := None\<rparr>)"
proof -
  from assms obtain p where "products d pid = Some p"
    by (cases "products d pid") (simp_all add: cancel_purchase_def)
  with assms show ?thesis
    by (auto simp: cancel_purchase_def Let_def split: if_splits)
qed

text \<open>
  A listing request leaves each Product as it was or leaves it satisfying the invariant.
\<close>

lemma listing_handle_product:
  assumes "listing_request rq" and "handle d rq = Inr d'" and "products d' k = Some p'"
  shows "\<exists>p. products d k = Some p \<and> (p' = p \<or> product_ok p')"
proof (cases rq)
  case (Purchase c pid)
  with assms(2) have "purchase d c pid = Inr d'" by simp
  from purchase_products [OF this] assms(3) show ?thesis
    by (cases "k = pid") (auto simp: product_ok_def)
next
  case (ConfirmPurchase c pid)
  with assms(2) have "confirm_purchase d c pid = Inr d'" by simp
  from confirm_purchase_products [OF this] assms(3) show ?thesis
    by (cases "k = pid") (auto simp: product_ok_def)
next
  case (CancelPurchase c pid)
  with assms(2) have "cancel_purchase d c pid = Inr d'" by simp
  from cancel_purchase_products [OF this] assms(3) show ?thesis
    by (cases "k = pid") (auto simp: product_ok_def)
qed (use assms(1) in simp_all)

lemma listing_step_product:
  assumes "listing_request rq" and "products (step d rq) k = Some p'"
  shows "\<exists>p. products d k = Some p \<and> (product_ok p \<longrightarrow> product_ok p')"
proof (cases "handle d rq")
  case (Inl e)
  with assms(2) show ?thesis by (simp add: step_def)
next
  case (Inr d')
  with assms(2) have "products d' k = Some p'" by (simp add: step_def)
  from listing_handle_product [OF assms(1) Inr this] show ?thesis by auto
qed

lemma listing_step_inv:
  assumes "listing_request rq" and "listing_inv d"
  shows "listing_inv (step d rq)"
  unfolding listing_inv_def
proof (intro allI impI)
  fix k p'
  assume "products (step d rq) k = Some p'"
  from listing_step_product [OF assms(1) this] assms(2) show "product_ok p'"
    by (auto simp: listing_inv_def)
qed

text \<open>
  Claim C1, as amended. Purchase, confirm-purchase and cancel-purchase preserve the
  invariant that a Product has a buyerId exactly when its status is pending or sold:
  each Product that satisfies it before the request satisfies it after. The order
  endpoints never write buyerId. Order create sets the status of the linked Product to
  pending, confirm-delivery to sold and cancel to available, ship writes no Product,
  and every other Product and every other field stays as it was. So after order create
  on an available Product that satisfied the invariant, the status is pending while
  the buyerId is still null, and the invariant no longer holds for that Product.
\<close>

theorem listing_invariant_steps:
  "(listing_request rq \<longrightarrow>
      (\<forall>k p'. products (step d rq) k = Some p' \<longrightarrow>
         (\<exists>p. products d k = Some p \<and> (product_ok p \<longrightarrow> product_ok p')))
      \<and> (listing_inv d \<longrightarrow> listing_inv (step d rq)))
   \<and> (\<forall>d'. create_order d c oid pid addr nts = Inr d' \<longrightarrow>
        (\<exists>p. products d pid = Some p \<and> p_status p = Available
           \<and> products d' = (products d)(pid \<mapsto> p\<lparr>p_status := Pending\<rparr>)
           \<and> (product_ok p \<longrightarrow>
                 p_buyerId p = None \<and> \<not> product_ok (p\<lparr>p_status := Pending\<rparr>))))
   \<and> (\<forall>d'. ship_order d c oid t = Inr d' \<longrightarrow> products d' = products d)
   \<and> (\<forall>d' ord. orders d oid = Some ord \<and> confirm_delivery d c oid = Inr d' \<longrightarrow>
        products d' =
          (case products d (o_productId ord) of
             None \<Rightarrow> products d
           | Some p \<Rightarrow> (products d)(o_productId ord \<mapsto> p\<lparr>p_status := Sold\<rparr>)))
   \<and> (\<forall>d' ord. orders d oid = Some ord \<and> cancel_order d c oid = Inr d' \<longrightarrow>
        products d' =
          (case products d (o_productId ord) of
             None \<Rightarrow> products d
           | Some p \<Rightarrow> (products d)(o_productId ord \<mapsto> p\<lparr>p_status := Available\<rparr>)))
   \<and> (order_request rq \<longrightarrow>
        (\<forall>k. map_option p_buyerId (products (step d rq) k) = map_option p_buyerId (products d k)))"
proof (intro conjI impI allI)
  fix k p'
  assume "listing_request rq" and "products (step d rq) k = Some p'"
  then show "\<exists>p. products d k = Some p \<and> (product_ok p \<longrightarrow> product_ok p')"
    by (rule listing_step_product)
next
  assume "listing_request rq" and "listing_inv d"
  then show "listing_inv (step d rq)"
    by (rule listing_step_inv)
next
  fix d'
  assume "create_order d c oid pid addr nts = Inr d'"
  from create_order_products [OF this]
  show "\<exists>p. products d pid = Some p \<and> p_status p = Available
           \<and> products d' = (products d)(pid \<mapsto> p\<lparr>p_status := Pending\<rparr>)
           \<and> (product_ok p \<longrightarrow>
                 p_buyerId p = None \<and> \<not> product_ok (p\<lparr>p_status := Pending\<rparr>))"
    by (auto simp: product_ok_def)
next
  fix d'
  assume "ship_order d c oid t = Inr d'"
  then show "products d' = products d"
    by (rule ship_order_products)
next
  fix d' ord
  assume "orders d oid = Some ord \<and> confirm_delivery d c oid = Inr d'"
  then show "products d' =
          (case products d (o_productId ord) of
             None \<Rightarrow> products d
           | Some p \<Rightarrow> (products d)(o_productId ord \<mapsto> p\<lparr>p_status := Sold\<rparr>))"
    by (elim conjE) (rule confirm_delivery_products)
next
  fix d' ord
  assume "orders d oid = Some ord \<and> cancel_order d c oid = Inr d'"
  then show "products d' =
          (case products d (o_productId ord) of
             None \<Rightarrow> products d
           | Some p \<Rightarrow> (products d)(o_productId ord \<mapsto> p\<lparr>p_status := Available\<rparr>))"
    by (elim conjE) (rule cancel_order_products)
next
  fix k
  assume "order_request rq"
  then show "map_option p_buyerId (products (step d rq) k) = map_option p_buyerId (products d k)"
    by (cases rq) (auto simp: step_def order_handlers_buyer split: sum.splits)
qed

lemma ex_db_listing_inv: "listing_inv ex_db"
  by (simp add: listing_inv_def product_ok_def ex_db_def ex_product_def)

text \<open>
  On the example states: buyer 2 purchases product 10 and the invariant stays; buyer 2
  orders product 10 instead and it is pending without a buyer; on the shipped order 20
  a confirmed delivery leaves product 10 sold and a cancel leaves it available; and
  shipping the order while it is confirmed writes no Product.
\<close>

theorem listing_invariant_steps_witness:
  "listing_request (Purchase 2 10) \<and> listing_inv ex_db \<and> listing_inv (step ex_db (Purchase 2 10))
   \<and> products (step ex_db (Purchase 2 10)) 10
       = Some (ex_product\<lparr>p_status := Pending, p_buyerId := Some 2\<rparr>)
   \<and> product_ok (ex_product\<lparr>p_status := Pending, p_buyerId := Some 2\<rparr>)
   \<and> (\<exists>d'. create_order ex_db 2 20 10 ex_address None = Inr d'
         \<and> products d' = (products ex_db)(10 \<mapsto> ex_product\<lparr>p_status := Pending\<rparr>)
         \<and> \<not> product_ok (ex_product\<lparr>p_status := Pending\<rparr>))
   \<and> (\<exists>d'. ship_order (ex_shipped\<lparr>orders := [20 \<mapsto> ex_shipped_order\<lparr>o_status := Confirmed\<rparr>]\<rparr>)
               1 20 None = Inr d'
         \<and> products d' = products ex_shipped)
   \<and> (\<exists>d'. confirm_delivery ex_shipped 2 20 = Inr d'
         \<and> products d' = (products ex_shipped)(10 \<mapsto> ex_product\<lparr>p_status := Sold\<rparr>))
   \<and> (\<exists>d'. cancel_order ex_shipped 1 20 = Inr d'
         \<and> products d' = (products ex_shipped)(10 \<mapsto> ex_product\<lparr>p_status := Available\<rparr>))
   \<and> order_request (CreateOrder 2 20 10 ex_address None)
   \<and> map_option p_buyerId (products (step ex_db (CreateOrder 2 20 10 ex_address None)) 10)
       = Some None"
proof -
  let ?conf = "ex_shipped\<lparr>orders := [20 \<mapsto> ex_shipped_order\<lparr>o_status := Confirmed\<rparr>]\<rparr>"
  note listing = listing_invariant_steps [THEN conjunct1, rule_format]
  note create = listing_invariant_steps [THEN conjunct2, THEN conjunct1, rule_format]
  note ship = listing_invariant_steps [THEN conjunct2, THEN conjunct2, THEN conjunct1, rule_format]
  note confirm = listing_invariant_steps
    [THEN conjunct2, THEN conjunct2, THEN conjunct2, THEN conjunct1, rule_format]
  note cancel = listing_invariant_steps
    [THEN conjunct2, THEN conjunct2, THEN conjunct2, THEN conjunct2, THEN conjunct1, rule_format]
  note buyer = listing_invariant_steps
    [THEN conjunct2, THEN conjunct2, THEN conjunct2, THEN conjunct2, THEN conjunct2, rule_format]
  have p: "products ex_db 10 = Some ex_product" "p_buyerId ex_product = None"
    "product_ok ex_product"
    by (simp_all add: ex_db_def ex_product_def product_ok_def)
  have lr: "listing_request (Purchase 2 10)" by simp
  have sp: "products (step ex_db (Purchase 2 10)) 10
              = Some (ex_product\<lparr>p_status := Pending, p_buyerId := Some 2\<rparr>)"
    using ex_product_valid [where st = Pending and b = "Some 2"]
    by (simp add: step_def purchase_def Let_def ex_db_def) (simp add: ex_product_def)
  from listing [OF lr, THEN conjunct1, rule_format, OF sp] p
  have 1: "product_ok (ex_product\<lparr>p_status := Pending, p_buyerId := Some 2\<rparr>)"
    by auto
  from listing [OF lr, THEN conjunct2, rule_format, OF ex_db_listing_inv]
  have inv1: "listing_inv (step ex_db (Purchase 2 10))" .
  have "\<exists>d'. create_order ex_db 2 20 10 ex_address None = Inr d'"
    by (simp add: ex_defs create_order_def order_body_errors_def)
  then obtain d1 where c: "create_order ex_db 2 20 10 ex_address None = Inr d1" ..
  from create [OF c] p
  have 2: "products d1 = (products ex_db)(10 \<mapsto> ex_product\<lparr>p_status := Pending\<rparr>)"
    "\<not> product_ok (ex_product\<lparr>p_status := Pending\<rparr>)"
    by auto
  have o: "orders ex_shipped 20 = Some ex_shipped_order"
    "o_productId ex_shipped_order = 10"
    "products ex_shipped 10 = Some (ex_product\<lparr>p_status := Pending\<rparr>)"
    by (simp_all add: ex_shipped_def ex_shipped_order_def)
  have "\<exists>d'. ship_order ?conf 1 20 None = Inr d'"
    by (simp add: ship_order_def ex_shipped_order_def)
  then obtain d2 where s: "ship_order ?conf 1 20 None = Inr d2" ..
  from ship [OF s]
  have 3: "products d2 = products ex_shipped" by simp
  have "\<exists>d'. confirm_delivery ex_shipped 2 20 = Inr d'"
    using o by (simp add: confirm_delivery_def ex_shipped_order_def)
  then obtain d3 where cd: "confirm_delivery ex_shipped 2 20 = Inr d3" ..
  from confirm [OF conjI, OF o(1) cd] o
  have 4: "products d3 = (products ex_shipped)(10 \<mapsto> ex_product\<lparr>p_status := Sold\<rparr>)"
    by simp
  have "\<exists>d'. cancel_order ex_shipped 1 20 = Inr d'"
    using o by (simp add: cancel_order_def ex_shipped_order_def)
  then obtain d4 where co: "cancel_order ex_shipped 1 20 = Inr d4" ..
  from cancel [OF conjI, OF o(1) co] o
  have 5: "products d4 = (products ex_shipped)(10 \<mapsto> ex_product\<lparr>p_status := Available\<rparr>)"
    by simp
  have orq: "order_request (CreateOrder 2 20 10 ex_address None)" by simp
  from buyer [OF orq, of ex_db 10] p
  have 6: "map_option p_buyerId (products (step ex_db (CreateOrder 2 20 10 ex_address None)) 10)
             = Some None" by simp
  from c 2 have e2: "\<exists>d'. create_order ex_db 2 20 10 ex_address None = Inr d'
         \<and> products d' = (products ex_db)(10 \<mapsto> ex_product\<lparr>p_status := Pending\<rparr>)
         \<and> \<not> product_ok (ex_product\<lparr>p_status := Pending\<rparr>)" by blast
  from s 3 have e3: "\<exists>d'. ship_order ?conf 1 20 None = Inr d' \<and> products d' = products ex_shipped"
    by blast
  from cd 4 have e4: "\<exists>d'. confirm_delivery ex_shipped 2 20 = Inr d'
         \<and> products d' = (products ex_shipped)(10 \<mapsto> ex_product\<lparr>p_status := Sold\<rparr>)" by blast
  from co 5 have e5: "\<exists>d'. cancel_order ex_shipped 1 20 = Inr d'
         \<and> products d' = (products ex_shipped)(10 \<mapsto> ex_product\<lparr>p_status := Available\<rparr>)"
    by blast
  show ?thesis
    by (intro conjI lr ex_db_listing_inv inv1 sp 1 e2 e3 e4 e5 orq 6)
qed

text \<open>
  The claim as first stated has the invariant hold after order create as well. Creating
  an order for the available product 10 leaves it pending without a buyerId.
\<close>

theorem order_create_breaks_listing_invariant_counterexample:
  "listing_inv ex_db \<and> \<not> listing_inv (step ex_db (CreateOrder 2 20 10 ex_address None))"
proof -
  have "products (step ex_db (CreateOrder 2 20 10 ex_address None)) 10
          = Some (ex_product\<lparr>p_status := Pending\<rparr>)"
    by (simp add: ex_defs step_def handler_defs)
  moreover have "\<not> product_ok (ex_product\<lparr>p_status := Pending\<rparr>)"
    by (simp add: product_ok_def ex_product_def)
  ultimately have "\<not> listing_inv (step ex_db (CreateOrder 2 20 10 ex_address None))"
    unfolding listing_inv_def by blast
  with ex_db_listing_inv show ?thesis by simp
qed

section \<open>The aggregator computes the mean\<close>

lemma foldl_rating:
  "foldl (\<lambda>sum review. sum + r_rating review) a rs = a + sum_list (map r_rating rs)"
  by (induction rs arbitrary: a) simp_all

lemma rating_summary_aggregate: "rating_summary rs = aggregate rs"
  by (simp add: rating_summary_def aggregate_def foldl_rating)

lemma aggregate_cong:
  assumes "map r_rating xs = map r_rating ys"
  shows "aggregate xs = aggregate ys"
proof -
  from assms have "length xs = length ys"
    by (rule map_eq_imp_length_eq)
  moreover from this have "xs = [] \<longleftrightarrow> ys = []" by auto
  ultimately show ?thesis using assms
    by (simp add: aggregate_def)
qed

lemma updateProductRatings_products:
  "products (updateProductRatings pid d) k =
     (if k = pid
      then map_option
             (\<lambda>p. p\<lparr>p_ratings := aggregate (filter (\<lambda>r. r_productId r = pid) (reviews d))\<rparr>)
             (products d pid)
      else products d k)"
  by (simp add: updateProductRatings_def Let_def rating_summary_aggregate split: option.splits)

lemma updateSellerRatings_users:
  "users (updateSellerRatings sid d) k =
     (if k = sid
      then map_option
             (\<lambda>u. u\<lparr>u_ratings := aggregate (filter (\<lambda>r. r_sellerId r = sid) (reviews d))\<rparr>)
             (users d sid)
      else users d k)"
  by (simp add: updateSellerRatings_def Let_def rating_summary_aggregate split: option.splits)

lemma recompute_consistent:
  assumes "ratings_consistent d"
    and "\<forall>k. k \<noteq> pid \<longrightarrow>
           map r_rating (filter (\<lambda>r. r_productId r = k) rs') =
           map r_rating (filter (\<lambda>r. r_productId r = k) (reviews d))"
    and "\<forall>k. k \<noteq> sid \<longrightarrow>
           map r_rating (filter (\<lambda>r. r_sellerId r = k) rs') =
           map r_rating (filter (\<lambda>r. r_sellerId r = k) (reviews d))"
  shows "ratings_consistent (updateSellerRatings sid (updateProductRatings pid (d\<lparr>reviews := rs'\<rparr>)))"
proof -
  let ?d' = "updateSellerRatings sid (updateProductRatings pid (d\<lparr>reviews := rs'\<rparr>))"
  have rv: "reviews ?d' = rs'" by simp
  have "product_ratings_ok ?d'"
    unfolding product_ratings_ok_def
  proof (intro allI impI)
    fix k p
    assume kp: "products ?d' k = Some p"
    show "p_ratings p = aggregate (filter (\<lambda>r. r_productId r = k) (reviews ?d'))"
    proof (cases "k = pid")
      case True
      with kp show ?thesis
        by (auto simp: updateProductRatings_products)
    next
      case False
      with kp have "products d k = Some p"
        by (simp add: updateProductRatings_products)
      with assms(1) have "p_ratings p = aggregate (filter (\<lambda>r. r_productId r = k) (reviews d))"
        by (simp add: ratings_consistent_def product_ratings_ok_def)
      also from assms(2) False have "\<dots> = aggregate (filter (\<lambda>r. r_productId r = k) rs')"
        by (intro aggregate_cong) simp
      finally show ?thesis by (simp only: rv)
    qed
  qed
  moreover have "seller_ratings_ok ?d'"
    unfolding seller_ratings_ok_def
  proof (intro allI impI)
    fix k u
    assume ku: "users ?d' k = Some u"
    show "u_ratings u = aggregate (filter (\<lambda>r. r_sellerId r = k) (reviews ?d'))"
    proof (cases "k = sid")
      case True
      with ku show ?thesis
        by (auto simp: updateSellerRatings_users)
    next
      case False
      with ku have "users d k = Some u"
        by (simp add: updateSellerRatings_users)
      with assms(1) have "u_ratings u = aggregate (filter (\<lambda>r. r_sellerId r = k) (reviews d))"
        by (simp add: ratings_consistent_def seller_ratings_ok_def)
      also from assms(3) False have "\<dots> = aggregate (filter (\<lambda>r. r_sellerId r = k) rs')"
        by (intro aggregate_cong) simp
      finally show ?thesis by (simp only: rv)
    qed
  qed
  ultimately show ?thesis by (simp add: ratings_consistent_def)
qed

lemma comment_only_consistent:
  assumes "ratings_consistent d"
    and "\<forall>k. map r_rating (filter (\<lambda>r. r_productId r = k) rs') =
              map r_rating (filter (\<lambda>r. r_productId r = k) (reviews d))"
    and "\<forall>k. map r_rating (filter (\<lambda>r. r_sellerId r = k) rs') =
              map r_rating (filter (\<lambda>r. r_sellerId r = k) (reviews d))"
  shows "ratings_consistent (d\<lparr>reviews := rs'\<rparr>)"
  using assms aggregate_cong [of "filter (\<lambda>r. r_productId r = k) rs'"
                                 "filter (\<lambda>r. r_productId r = k) (reviews d)" for k]
    aggregate_cong [of "filter (\<lambda>r. r_sellerId r = k) rs'"
                       "filter (\<lambda>r. r_sellerId r = k) (reviews d)" for k]
  by (simp add: ratings_consistent_def product_ratings_ok_def seller_ratings_ok_def)

section \<open>Rewriting and removing one review\<close>

lemma update_first_filter_map:
  "(\<And>x. Q (f x) = Q x) \<Longrightarrow> (\<And>x. g (f x) = g x) \<Longrightarrow>
   map g (filter Q (update_first P f xs)) = map g (filter Q xs)"
  by (induction xs) simp_all

lemma update_first_filter_other:
  "find P xs = Some x \<Longrightarrow> \<not> Q x \<Longrightarrow> (\<And>y. Q (f y) = Q y) \<Longrightarrow>
   filter Q (update_first P f xs) = filter Q xs"
  by (induction xs) (auto split: if_splits)

lemma delete_first_filter_other:
  "find P xs = Some x \<Longrightarrow> \<not> Q x \<Longrightarrow> filter Q (delete_first P xs) = filter Q xs"
  by (induction xs) (auto split: if_splits)


section \<open>The review handlers keep the aggregates right\<close>

lemma create_review_result:
  assumes "create_review d c rid pid rating comment rt = Inr d'"
  shows "\<exists>p. products d pid = Some p \<and> p_status p = Sold \<and> p_buyerId p = Some c
           \<and> findOne_review d pid c = None
           \<and> d' = updateSellerRatings (p_sellerId p)
                     (updateProductRatings pid
                        (d\<lparr>reviews := reviews d @
                             [new_review rid pid c (p_sellerId p) rating comment rt]\<rparr>))"
proof -
  from assms obtain p where "products d pid = Some p"
    by (cases "products d pid") (simp_all add: create_review_def split: if_splits)
  with assms show ?thesis
    by (auto simp: create_review_def Let_def split: if_splits)
qed

lemma update_review_result:
  assumes "update_review d c rid rating comment = Inr d'"
  shows "\<exists>review. findById_review d rid = Some review \<and> r_userId review = c
           \<and> d' = (case rating of
                     None \<Rightarrow> d\<lparr>reviews := update_first (\<lambda>r. r_id r = rid)
                                            (updateData rating comment) (reviews d)\<rparr>
                   | Some v \<Rightarrow> updateSellerRatings (r_sellerId review)
                       (updateProductRatings (r_productId review)
                          (d\<lparr>reviews := update_first (\<lambda>r. r_id r = rid)
                                            (updateData rating comment) (reviews d)\<rparr>)))"
proof -
  from assms obtain review where "findById_review d rid = Some review"
    by (cases "findById_review d rid") (simp_all add: update_review_def split: if_splits)
  with assms show ?thesis
    by (cases rating) (auto simp: update_review_def Let_def split: if_splits)
qed

lemma delete_review_result:
  assumes "delete_review d c rid = Inr d'"
  shows "\<exists>review. findById_review d rid = Some review \<and> r_userId review = c
           \<and> d' = updateSellerRatings (r_sellerId review)
                     (updateProductRatings (r_productId review)
                        (d\<lparr>reviews := delete_first (\<lambda>r. r_id r = rid) (reviews d)\<rparr>))"
proof -
  from assms obtain review where "findById_review d rid = Some review"
    by (cases "findById_review d rid") (simp_all add: delete_review_def)
  with assms show ?thesis
    by (auto simp: delete_review_def split: if_splits)
qed

lemma updateData_keeps [simp]:
  "r_productId (updateData rating comment r) = r_productId r"
  "r_sellerId (updateData rating comment r) = r_sellerId r"
  "r_userId (updateData rating comment r) = r_userId r"
  "r_id (updateData rating comment r) = r_id r"
  "r_rating (updateData None comment r) = r_rating r"
  by (simp_all add: updateData_def Let_def split: option.splits)

lemma new_review_fields [simp]:
  "r_productId (new_review rid pid c sid rating comment rt) = pid"
  "r_sellerId (new_review rid pid c sid rating comment rt) = sid"
  "r_userId (new_review rid pid c sid rating comment rt) = c"
  "r_rating (new_review rid pid c sid rating comment rt) = rating"
  by (simp_all add: new_review_def)

lemma create_review_consistent:
  assumes "ratings_consistent d" and "create_review d c rid pid rating comment rt = Inr d'"
  shows "ratings_consistent d'"
proof -
  from create_review_result [OF assms(2)] obtain p :: product where
    d': "d' = updateSellerRatings (p_sellerId p)
                (updateProductRatings pid
                   (d\<lparr>reviews := reviews d @
                        [new_review rid pid c (p_sellerId p) rating comment rt]\<rparr>))"
    by blast
  show ?thesis
    unfolding d' by (rule recompute_consistent [OF assms(1)]) simp_all
qed

lemma delete_review_consistent:
  assumes "ratings_consistent d" and "delete_review d c rid = Inr d'"
  shows "ratings_consistent d'"
proof -
  from delete_review_result [OF assms(2)] obtain review where
    f: "find (\<lambda>r. r_id r = rid) (reviews d) = Some review"
    and d': "d' = updateSellerRatings (r_sellerId review)
                (updateProductRatings (r_productId review)
                   (d\<lparr>reviews := delete_first (\<lambda>r. r_id r = rid) (reviews d)\<rparr>))"
    by (auto simp: findById_review_def)
  show ?thesis
    unfolding d'
    by (rule recompute_consistent [OF assms(1)])
       (simp_all add: delete_first_filter_other [OF f])
qed

lemma update_review_consistent:
  assumes "ratings_consistent d" and "update_review d c rid rating comment = Inr d'"
  shows "ratings_consistent d'"
proof (cases rating)
  case None
  with update_review_result [OF assms(2)] have
    "d' = d\<lparr>reviews := update_first (\<lambda>r. r_id r = rid) (updateData None comment) (reviews d)\<rparr>"
    by auto
  then show ?thesis
    using assms(1) by (simp add: comment_only_consistent update_first_filter_map)
next
  case (Some v)
  with update_review_result [OF assms(2)] obtain review where
    f: "find (\<lambda>r. r_id r = rid) (reviews d) = Some review"
    and d': "d' = updateSellerRatings (r_sellerId review)
                (updateProductRatings (r_productId review)
                   (d\<lparr>reviews := update_first (\<lambda>r. r_id r = rid)
                                     (updateData rating comment) (reviews d)\<rparr>))"
    by (auto simp: findById_review_def)
  show ?thesis
    unfolding d'
    by (rule recompute_consistent [OF assms(1)])
       (simp_all add: update_first_filter_other [OF f])
qed

lemma step_review_consistent:
  "ratings_consistent d \<Longrightarrow> review_request rq \<Longrightarrow> ratings_consistent (step d rq)"
  by (cases rq)
     (auto simp: step_def split: sum.splits
           intro: create_review_consistent update_review_consistent delete_review_consistent)

lemma run_review_consistent:
  assumes "ratings_consistent d" and "list_all review_request rqs"
  shows "ratings_consistent (run d rqs)"
  using assms
proof (induction rqs arbitrary: d)
  case Nil
  then show ?case by simp
next
  case (Cons rq rqs)
  then show ?case by (simp add: step_review_consistent)
qed

section \<open>Ratings follow the reviews\<close>

text \<open>
  Claim C2. Start from a state whose stored aggregates agree with its reviews and serve
  any list of review create, update and delete requests. Afterwards, for every stored
  Product, \<open>ratings.count\<close> is the number of Reviews with its productId and
  \<open>ratings.average\<close> is the arithmetic mean of their ratings, 0 when there are none;
  the same holds for every stored User and the Reviews with that sellerId. Every prefix
  of such a list is such a list, so this holds after each single operation.
\<close>

theorem ratings_follow_reviews:
  assumes "ratings_consistent d" and "list_all review_request rqs"
  shows "(\<forall>pid p. products (run d rqs) pid = Some p \<longrightarrow>
            count (p_ratings p) =
              length (filter (\<lambda>r. r_productId r = pid) (reviews (run d rqs)))
            \<and> average (p_ratings p) =
              (if filter (\<lambda>r. r_productId r = pid) (reviews (run d rqs)) = [] then 0
               else of_int (sum_list (map r_rating
                      (filter (\<lambda>r. r_productId r = pid) (reviews (run d rqs)))))
                    / of_nat (length (filter (\<lambda>r. r_productId r = pid) (reviews (run d rqs))))))
       \<and> (\<forall>sid u. users (run d rqs) sid = Some u \<longrightarrow>
            count (u_ratings u) =
              length (filter (\<lambda>r. r_sellerId r = sid) (reviews (run d rqs)))
            \<and> average (u_ratings u) =
              (if filter (\<lambda>r. r_sellerId r = sid) (reviews (run d rqs)) = [] then 0
               else of_int (sum_list (map r_rating
                      (filter (\<lambda>r. r_sellerId r = sid) (reviews (run d rqs)))))
                    / of_nat (length (filter (\<lambda>r. r_sellerId r = sid) (reviews (run d rqs))))))"
proof -
  from run_review_consistent [OF assms] have
    "product_ratings_ok (run d rqs)" "seller_ratings_ok (run d rqs)"
    by (simp_all add: ratings_consistent_def)
  then show ?thesis
    unfolding product_ratings_ok_def seller_ratings_ok_def
    by (simp add: aggregate_def)
qed

lemma ex_sold_state:
  "products ex_sold = [10 \<mapsto> ex_product\<lparr>p_status := Sold, p_buyerId := Some 2\<rparr>]"
  "reviews ex_sold = []" "users ex_sold = ex_users"
  by (simp_all add: ex_sold_def ex_db_def ex_product_def step_def purchase_def
        confirm_purchase_def validate_product_def product_categories_def)

lemma ex_sold_consistent: "ratings_consistent ex_sold"
  by (simp add: ratings_consistent_def product_ratings_ok_def seller_ratings_ok_def
        ex_sold_state aggregate_def ex_product_def ex_users_def no_ratings_def)

text \<open>
  On the sold product 10: the review with rating 4 gives average 4 over 1 review, and
  deleting this only review resets product and seller to average 0 over 0 reviews.
\<close>

theorem ratings_follow_reviews_witness:
  "ratings_consistent ex_sold
   \<and> list_all review_request [CreateReview 2 30 10 4 ''good'' None]
   \<and> map_option p_ratings (products (run ex_sold [CreateReview 2 30 10 4 ''good'' None]) 10)
       = Some \<lparr>average = 4, count = 1\<rparr>
   \<and> list_all review_request [CreateReview 2 30 10 4 ''good'' None, DeleteReview 2 30]
   \<and> reviews (run ex_sold [CreateReview 2 30 10 4 ''good'' None, DeleteReview 2 30]) = []
   \<and> map_option p_ratings
        (products (run ex_sold [CreateReview 2 30 10 4 ''good'' None, DeleteReview 2 30]) 10)
       = Some \<lparr>average = 0, count = 0\<rparr>
   \<and> map_option u_ratings
        (users (run ex_sold [CreateReview 2 30 10 4 ''good'' None, DeleteReview 2 30]) 1)
       = Some \<lparr>average = 0, count = 0\<rparr>"
proof -
  let ?one = "[CreateReview 2 30 10 4 ''good'' None]"
  let ?rqs = "[CreateReview 2 30 10 4 ''good'' None, DeleteReview 2 30]"
  have l: "list_all review_request ?rqs" and l1: "list_all review_request ?one" by simp_all
  have r1: "reviews (run ex_sold ?one) = [new_review 30 10 2 1 4 ''good'' None]"
    by (simp add: ex_sold_state ex_defs step_def handler_defs)
  have "\<exists>p. products (run ex_sold ?one) 10 = Some p"
    by (simp add: ex_sold_state ex_defs step_def handler_defs)
  then obtain p1 where p1: "products (run ex_sold ?one) 10 = Some p1" ..
  from ratings_follow_reviews [OF ex_sold_consistent l1] p1 r1
  have "count (p_ratings p1) = 1" "average (p_ratings p1) = 4"
    by auto
  then have a1: "p_ratings p1 = \<lparr>average = 4, count = 1\<rparr>"
    by simp
  have r: "reviews (run ex_sold ?rqs) = []"
    by (simp add: ex_sold_state ex_defs step_def handler_defs)
  have "\<exists>p. products (run ex_sold ?rqs) 10 = Some p"
    by (simp add: ex_sold_state ex_defs step_def handler_defs)
  then obtain p where p: "products (run ex_sold ?rqs) 10 = Some p" ..
  have "\<exists>u. users (run ex_sold ?rqs) 1 = Some u"
    by (simp add: ex_sold_state ex_defs step_def handler_defs)
  then obtain u where u: "users (run ex_sold ?rqs) 1 = Some u" ..
  from ratings_follow_reviews [OF ex_sold_consistent l] p u r
  have "count (p_ratings p) = 0" "average (p_ratings p) = 0"
    "count (u_ratings u) = 0" "average (u_ratings u) = 0"
    by auto
  then have "p_ratings p = \<lparr>average = 0, count = 0\<rparr>" "u_ratings u = \<lparr>average = 0, count = 0\<rparr>"
    by simp_all
  with ex_sold_consistent l l1 r p u p1 a1 show ?thesis by simp
qed

section \<open>One review for each product and author\<close>

lemma findOne_review_pairs:
  "findOne_review d pid c = None \<longleftrightarrow> (pid, c) \<notin> set (review_pairs d)"
  by (auto simp: findOne_review_def review_pairs_def find_None_iff)

lemma update_first_map:
  "(\<And>x. g (f x) = g x) \<Longrightarrow> map g (update_first P f xs) = map g xs"
  by (induction xs) simp_all

lemma delete_first_subset: "set (delete_first P xs) \<subseteq> set xs"
  by (induction xs) auto

lemma delete_first_distinct:
  "distinct (map g xs) \<Longrightarrow> distinct (map g (delete_first P xs))"
proof (induction xs)
  case Nil
  then show ?case by simp
next
  case (Cons x xs)
  from delete_first_subset [of P xs] have "g ` set (delete_first P xs) \<subseteq> g ` set xs"
    by blast
  with Cons show ?case by auto
qed

lemma review_pairs_frame [simp]:
  "review_pairs (set_product_status pid st d) = review_pairs d"
  "review_pairs (updateProductRatings pid d) = review_pairs d"
  "review_pairs (updateSellerRatings sid d) = review_pairs d"
  by (simp_all add: review_pairs_def)

lemma other_handlers_reviews:
  "purchase d c pid = Inr d' \<Longrightarrow> reviews d' = reviews d"
  "confirm_purchase d c pid = Inr d' \<Longrightarrow> reviews d' = reviews d"
  "cancel_purchase d c pid = Inr d' \<Longrightarrow> reviews d' = reviews d"
  "delete_product d u pid = Inr d' \<Longrightarrow> reviews d' = reviews d"
  "deleteProduct d c pid = Inr d' \<Longrightarrow> reviews d' = reviews d"
  "create_order d c oid pid addr nts = Inr d' \<Longrightarrow> reviews d' = reviews d"
  "ship_order d c oid t = Inr d' \<Longrightarrow> reviews d' = reviews d"
  "confirm_delivery d c oid = Inr d' \<Longrightarrow> reviews d' = reviews d"
  "cancel_order d c oid = Inr d' \<Longrightarrow> reviews d' = reviews d"
  by (auto simp: purchase_def confirm_purchase_def cancel_purchase_def delete_product_def
        deleteProduct_def create_order_def ship_order_def confirm_delivery_def
        cancel_order_def Let_def split: option.splits if_splits)

lemma create_review_pairs:
  assumes "distinct (review_pairs d)" and "create_review d c rid pid rating comment rt = Inr d'"
  shows "distinct (review_pairs d')"
proof -
  from create_review_result [OF assms(2)] obtain p :: product where
    n: "findOne_review d pid c = None"
    and d': "d' = updateSellerRatings (p_sellerId p)
                (updateProductRatings pid
                   (d\<lparr>reviews := reviews d @
                        [new_review rid pid c (p_sellerId p) rating comment rt]\<rparr>))"
    by blast
  from n have "(pid, c) \<notin> set (review_pairs d)"
    by (simp add: findOne_review_pairs)
  with assms(1) show ?thesis
    unfolding d' by (simp add: review_pairs_def)
qed

lemma update_review_pairs:
  assumes "update_review d c rid rating comment = Inr d'"
  shows "review_pairs d' = review_pairs d"
  using update_review_result [OF assms]
  by (cases rating) (auto simp: review_pairs_def update_first_map)

lemma delete_review_pairs:
  assumes "distinct (review_pairs d)" and "delete_review d c rid = Inr d'"
  shows "distinct (review_pairs d')"
  using delete_review_result [OF assms(2)] assms(1)
  by (auto simp: review_pairs_def delete_first_distinct)

lemma admin_delete_user_pairs:
  assumes "distinct (review_pairs d)" and "admin_delete_user d u k = Inr d'"
  shows "distinct (review_pairs d')"
  using assms
  by (auto simp: admin_delete_user_def review_pairs_def distinct_map_filter
        split: option.splits if_splits)

lemma other_handlers_pairs:
  "purchase d c pid = Inr d' \<Longrightarrow> review_pairs d' = review_pairs d"
  "confirm_purchase d c pid = Inr d' \<Longrightarrow> review_pairs d' = review_pairs d"
  "cancel_purchase d c pid = Inr d' \<Longrightarrow> review_pairs d' = review_pairs d"
  "delete_product d u pid = Inr d' \<Longrightarrow> review_pairs d' = review_pairs d"
  "deleteProduct d c pid = Inr d' \<Longrightarrow> review_pairs d' = review_pairs d"
  "create_order d c oid pid addr nts = Inr d' \<Longrightarrow> review_pairs d' = review_pairs d"
  "ship_order d c oid t = Inr d' \<Longrightarrow> review_pairs d' = review_pairs d"
  "confirm_delivery d c oid = Inr d' \<Longrightarrow> review_pairs d' = review_pairs d"
  "cancel_order d c oid = Inr d' \<Longrightarrow> review_pairs d' = review_pairs d"
  by (simp_all add: review_pairs_def other_handlers_reviews)

lemma handle_pairs:
  "distinct (review_pairs d) \<Longrightarrow> handle d rq = Inr d' \<Longrightarrow> distinct (review_pairs d')"
proof (cases rq)
  case (CreateReview c rid pid rating comment rt)
  then show "distinct (review_pairs d) \<Longrightarrow> handle d rq = Inr d' \<Longrightarrow> ?thesis"
    by (simp add: create_review_pairs)
next
  case (UpdateReview c rid rating comment)
  then show "distinct (review_pairs d) \<Longrightarrow> handle d rq = Inr d' \<Longrightarrow> ?thesis"
    by (simp add: update_review_pairs)
next
  case (DeleteReview c rid)
  then show "distinct (review_pairs d) \<Longrightarrow> handle d rq = Inr d' \<Longrightarrow> ?thesis"
    by (simp add: delete_review_pairs)
next
  case (AdminDeleteUser u k)
  then show "distinct (review_pairs d) \<Longrightarrow> handle d rq = Inr d' \<Longrightarrow> ?thesis"
    by (simp add: admin_delete_user_pairs)
qed (simp_all add: other_handlers_pairs)

lemma step_pairs:
  "distinct (review_pairs d) \<Longrightarrow> distinct (review_pairs (step d rq))"
  by (cases "handle d rq") (simp_all add: step_def handle_pairs)

lemma run_pairs:
  "distinct (review_pairs d) \<Longrightarrow> distinct (review_pairs (run d rqs))"
  by (induction rqs arbitrary: d) (simp_all add: step_pairs)


text \<open>
  Claim C8, as amended. Review creation succeeds only when the Product is sold and the
  caller is its buyerId. When a Review of the caller for the Product already exists,
  creating another one always fails and stores nothing, and the answer is that of the
  first guard that fails, in the handler's order: the validation answer (status 400)
  for an invalid body, 404 when the Product is not stored, 403 when the caller is not
  its buyerId, 400 ``You can only review completed purchases'' when it is not sold, and
  otherwise the duplicate answer, status 400 ``You have already reviewed this product''
  (the Conflict of the specification). Hence no list of requests ever stores two
  Reviews for one pair of product and author.
\<close>

theorem second_review_refused:
  "(\<forall>d'. create_review d c rid pid rating comment rt = Inr d' \<longrightarrow>
        (\<exists>p. products d pid = Some p \<and> p_status p = Sold \<and> p_buyerId p = Some c))
   \<and> (findOne_review d pid c \<noteq> None \<longrightarrow>
        isl (create_review d c rid pid rating comment rt)
        \<and> step d (CreateReview c rid pid rating comment rt) = d
        \<and> create_review d c rid pid rating comment rt =
            (if review_body_errors rating comment \<noteq> []
             then Inl (ValidationErrors (review_body_errors rating comment))
             else case products d pid of
               None \<Rightarrow> Inl (Failure 404 ''Product not found'')
             | Some p \<Rightarrow>
                 if p_buyerId p \<noteq> Some c
                 then Inl (Failure 403 ''You can only review products you have purchased'')
                 else if p_status p \<noteq> Sold
                 then Inl (Failure 400 ''You can only review completed purchases'')
                 else Inl (Failure 400 ''You have already reviewed this product'')))
   \<and> (distinct (review_pairs d) \<longrightarrow> distinct (review_pairs (run d rqs)))"
proof (intro conjI allI impI)
  fix d'
  assume "create_review d c rid pid rating comment rt = Inr d'"
  from create_review_result [OF this]
  show "\<exists>p. products d pid = Some p \<and> p_status p = Sold \<and> p_buyerId p = Some c"
    by blast
next
  assume e: "findOne_review d pid c \<noteq> None"
  show f: "isl (create_review d c rid pid rating comment rt)"
  proof (cases "create_review d c rid pid rating comment rt")
    case (Inr d')
    from create_review_result [OF this] e show ?thesis by blast
  qed simp
  from f show "step d (CreateReview c rid pid rating comment rt) = d"
    by (auto simp: step_def split: sum.splits)
  from e show "create_review d c rid pid rating comment rt =
            (if review_body_errors rating comment \<noteq> []
             then Inl (ValidationErrors (review_body_errors rating comment))
             else case products d pid of
               None \<Rightarrow> Inl (Failure 404 ''Product not found'')
             | Some p \<Rightarrow>
                 if p_buyerId p \<noteq> Some c
                 then Inl (Failure 403 ''You can only review products you have purchased'')
                 else if p_status p \<noteq> Sold
                 then Inl (Failure 400 ''You can only review completed purchases'')
                 else Inl (Failure 400 ''You have already reviewed this product''))"
    by (simp add: create_review_def split: option.splits)
next
  assume "distinct (review_pairs d)"
  then show "distinct (review_pairs (run d rqs))"
    by (rule run_pairs)
qed

lemma ex_reviewed_state:
  "products ex_reviewed 10 =
     Some (ex_product\<lparr>p_status := Sold, p_buyerId := Some 2,
                      p_ratings := \<lparr>average = 4, count = 1\<rparr>\<rparr>)"
  "reviews ex_reviewed = [new_review 30 10 2 1 4 ''good'' None]"
  "users ex_reviewed 1 = Some \<lparr>u_role = Seller, u_ratings = \<lparr>average = 4, count = 1\<rparr>\<rparr>"
  by (simp_all add: ex_sold_state ex_defs step_def handler_defs)

text \<open>
  On the reviewed product 10: a second review of buyer 2 gets the duplicate answer, a
  second review with rating 9 gets the validation answer, and neither stores anything.
\<close>

theorem second_review_refused_witness:
  "findOne_review ex_reviewed 10 2 \<noteq> None
   \<and> create_review ex_reviewed 2 31 10 5 ''again'' None =
       Inl (Failure 400 ''You have already reviewed this product'')
   \<and> step ex_reviewed (CreateReview 2 31 10 5 ''again'' None) = ex_reviewed
   \<and> create_review ex_reviewed 2 31 10 9 ''again'' None =
       Inl (ValidationErrors [''Rating must be between 1 and 5''])
   \<and> (\<exists>d'. create_review ex_sold 2 30 10 4 ''good'' None = Inr d')
   \<and> map_option p_status (products ex_sold 10) = Some Sold
   \<and> map_option p_buyerId (products ex_sold 10) = Some (Some 2)
   \<and> distinct (review_pairs ex_reviewed)
   \<and> distinct (review_pairs (run ex_reviewed [CreateReview 2 31 10 5 ''again'' None]))"
proof -
  note only_sold = second_review_refused [THEN conjunct1, rule_format]
  note second = second_review_refused [THEN conjunct2, THEN conjunct1, rule_format]
  note pairs = second_review_refused [THEN conjunct2, THEN conjunct2, rule_format]
  have e: "findOne_review ex_reviewed 10 2 \<noteq> None"
    by (simp add: findOne_review_def ex_reviewed_state new_review_def)
  have b: "review_body_errors 5 ''again'' = []"
    "review_body_errors 9 ''again'' = [''Rating must be between 1 and 5'']"
    by (simp_all add: review_body_errors_def rating_errors_def)
  have p: "products ex_reviewed 10 =
     Some (ex_product\<lparr>p_status := Sold, p_buyerId := Some 2,
                      p_ratings := \<lparr>average = 4, count = 1\<rparr>\<rparr>)"
    by (rule ex_reviewed_state)
  from second [OF e, of 31 5 "''again''" None] b p
  have 1: "create_review ex_reviewed 2 31 10 5 ''again'' None =
             Inl (Failure 400 ''You have already reviewed this product'')"
    and 2: "step ex_reviewed (CreateReview 2 31 10 5 ''again'' None) = ex_reviewed"
    by simp_all
  from second [OF e, of 31 9 "''again''" None] b
  have 3: "create_review ex_reviewed 2 31 10 9 ''again'' None =
             Inl (ValidationErrors [''Rating must be between 1 and 5''])"
    by simp
  have "\<exists>d'. create_review ex_sold 2 30 10 4 ''good'' None = Inr d'"
    by (simp add: create_review_def review_body_errors_def rating_errors_def ex_sold_state
          findOne_review_def findById_review_def Let_def)
  then obtain d1 where c: "create_review ex_sold 2 30 10 4 ''good'' None = Inr d1" ..
  from only_sold [OF c]
  have 4: "map_option p_status (products ex_sold 10) = Some Sold"
    "map_option p_buyerId (products ex_sold 10) = Some (Some 2)"
    by auto
  have di: "distinct (review_pairs ex_reviewed)"
    by (simp add: review_pairs_def ex_reviewed_state)
  from pairs [OF di]
  have 5: "distinct (review_pairs (run ex_reviewed [CreateReview 2 31 10 5 ''again'' None]))" .
  from c have ex: "\<exists>d'. create_review ex_sold 2 30 10 4 ''good'' None = Inr d'" by blast
  show ?thesis
    by (intro conjI e 1 2 3 ex 4 di 5)
qed

lemma ex_orphaned_state:
  "reviews ex_orphaned = [new_review 30 10 2 1 4 ''good'' None]"
  "products ex_orphaned 10 = None"
proof -
  have "\<exists>d'. admin_delete_user ex_reviewed ex_admin 1 = Inr d'
          \<and> reviews d' = filter (\<lambda>r. r_userId r \<noteq> 1) (reviews ex_reviewed)
          \<and> products d' 10 = None"
    using ex_reviewed_state
    by (simp add: admin_delete_user_def ex_admin_def ex_product_def)
  with ex_reviewed_state show "reviews ex_orphaned = [new_review 30 10 2 1 4 ''good'' None]"
    "products ex_orphaned 10 = None"
    by (auto simp: ex_orphaned_def step_def new_review_def)
qed

text \<open>
  The claim as first stated has the second creation always fail with Conflict. After the
  admin deleted the seller, product 10 is gone while the review of buyer 2 remains, and
  a second review of buyer 2 is answered 404 ``Product not found''.
\<close>

theorem second_review_not_found_counterexample:
  "findOne_review ex_orphaned 10 2 \<noteq> None
   \<and> create_review ex_orphaned 2 31 10 5 ''again'' None = Inl (Failure 404 ''Product not found'')"
  by (simp add: ex_orphaned_state findOne_review_def new_review_def create_review_def
        review_body_errors_def rating_errors_def)

end
